theory Spec2Isabelle
  imports Main
begin

section \<open>Wire protocol (lib/realtime/types.ts)\<close>

text \<open>
  The connection state, the voices, and the two event unions of the control channel.
  A content part is only ever built by the hooks as \<^verbatim>\<open>{type: "input_text", text}\<close>, so the
  part carries its text. An output item of a finished response is either a message or a
  function call; the dispatcher reads \<^verbatim>\<open>item.name!\<close> and \<^verbatim>\<open>item.call_id!\<close> with a
  non-null assertion, so a function-call item carries both strings, and its optional
  \<^verbatim>\<open>arguments\<close>. \<^verbatim>\<open>Unhandled\<close> stands for any message whose \<^verbatim>\<open>type\<close> is not in the union
  (the \<^verbatim>\<open>default\<close> branch of the dispatcher).
\<close>

datatype ConnectionStatus = Disconnected | Connecting | Connected

datatype VoiceOption = Alloy | Ash | Ballad | Coral | Echo | Sage | Shimmer | Verse | Marin | Cedar

datatype Role = User | Assistant | System

datatype ContentPart = InputText string

datatype ConversationItem =
    Message Role "ContentPart list"
  | FunctionCallOutput string string

datatype ClientEvent =
    SessionUpdate string
  | ConversationItemCreate ConversationItem
  | ResponseCreate
  | InputAudioBufferAppend string
  | InputAudioBufferCommit

datatype OutputItem =
    MessageItem
  | FunctionCallItem string string "string option"

datatype ServerEvent =
    SessionCreated string
  | SessionUpdated
  | ConversationItemCreated
  | ResponseOutputItemDone OutputItem
  | ResponseDone "OutputItem list"
  | ResponseAudioDelta string
  | ResponseAudioDone
  | ResponseAudioTranscriptDelta string
  | ResponseAudioTranscriptDone string
  | InputAudioBufferSpeechStarted
  | InputAudioBufferSpeechStopped
  | InputAudioTranscriptionCompleted string
  | ErrorEvent string
  | Unhandled string

section \<open>Tool names (lib/realtime/tools.ts)\<close>

definition GO_TO_NEXT_SLIDE :: string where
  "GO_TO_NEXT_SLIDE = ''goToNextSlide''"

definition GO_TO_PREVIOUS_SLIDE :: string where
  "GO_TO_PREVIOUS_SLIDE = ''goToPreviousSlide''"

section \<open>JSON.stringify on the result objects\<close>

text \<open>
  The tool results are flat objects of booleans and strings. Strings are quoted as
  \<^verbatim>\<open>JSON.stringify\<close> quotes them: the double quote, the backslash and the control
  characters are escaped, every other character is copied (characters are 8-bit here).
\<close>

datatype json_value = JBool bool | JString string

definition hex_digit :: "nat \<Rightarrow> char" where
  "hex_digit n = (if n < 16 then ''0123456789abcdef'' ! n else CHR ''0'')"

definition escape_char :: "char \<Rightarrow> string" where
  "escape_char c =
     (if c = CHR 0x22 then [CHR 0x5C, CHR 0x22]
      else if c = CHR 0x5C then [CHR 0x5C, CHR 0x5C]
      else if c = CHR 0x08 then [CHR 0x5C, CHR ''b'']
      else if c = CHR 0x0C then [CHR 0x5C, CHR ''f'']
      else if c = CHR 0x0A then [CHR 0x5C, CHR ''n'']
      else if c = CHR 0x0D then [CHR 0x5C, CHR ''r'']
      else if c = CHR 0x09 then [CHR 0x5C, CHR ''t'']
      else if (of_char c :: nat) < 32
        then [CHR 0x5C, CHR ''u'', CHR ''0'', CHR ''0'',
              hex_digit ((of_char c :: nat) div 16), hex_digit ((of_char c :: nat) mod 16)]
      else [c])"

definition quoteJSON :: "string \<Rightarrow> string" where
  "quoteJSON s = [CHR 0x22] @ concat (map escape_char s) @ [CHR 0x22]"

fun stringify_value :: "json_value \<Rightarrow> string" where
  "stringify_value (JBool b) = (if b then ''true'' else ''false'')"
| "stringify_value (JString s) = quoteJSON s"

fun stringify_members :: "(string \<times> json_value) list \<Rightarrow> string" where
  "stringify_members [] = []"
| "stringify_members [(k, v)] = quoteJSON k @ '':'' @ stringify_value v"
| "stringify_members ((k, v) # m # ms) =
     quoteJSON k @ '':'' @ stringify_value v @ '','' @ stringify_members (m # ms)"

definition JSON_stringify :: "(string \<times> json_value) list \<Rightarrow> string" where
  "JSON_stringify members = ''{'' @ stringify_members members @ ''}''"

section \<open>The connection handle and its environment\<close>

text \<open>
  Both hooks (\<^verbatim>\<open>useRealtimeConnection\<close>, \<^verbatim>\<open>useAuditionSession\<close>) hold the React state
  \<^verbatim>\<open>status\<close>, \<^verbatim>\<open>isAgentSpeaking\<close>, \<^verbatim>\<open>error\<close> and four refs to browser objects. Browser
  objects have identity: each kind lives in a store, an object is the index at which it
  was created, and a ref holds \<^verbatim>\<open>null\<close> (\<open>None\<close>) or such an index.

  \<^item> \<open>channels\<close>: the \<^verbatim>\<open>readyState\<close> of every data channel created so far;
  \<^item> \<open>peers\<close>: for every peer connection, whether it is still open, and the audio element
    its \<^verbatim>\<open>ontrack\<close> handler writes to;
  \<^item> \<open>streams\<close>: for every capture stream, one flag per track, true while the track is live;
  \<^item> \<open>audios\<close>: for every audio element, whether a \<^verbatim>\<open>srcObject\<close> is attached.

  A React state variable is the field its setter writes, and a call reads it as the render
  that created the called function saw it: each call is made from the render that followed
  the last write. (Two calls made from one and the same render both see the state of that
  render: see \<open>connectFrom\<close>.) Every effect that leaves a
  handler is appended to \<open>trace\<close>, in program order. \<open>pending\<close> holds the suspended
  \<^verbatim>\<open>connect\<close> calls (see below).

  The navigation callbacks are functions of the host, and a call of one may return or throw.
  \<open>NavigationCallbacks\<close> is what the hook can see of them: given the navigation calls made
  so far and the callback called, whether the call returns (\<open>True\<close>) or throws. The three
  observers \<^verbatim>\<open>onTranscript\<close>, \<^verbatim>\<open>onUserTranscript\<close> and \<^verbatim>\<open>onError\<close> are those the provider
  passes, which write to the console and return.
\<close>

datatype ready_state = RsConnecting | RsOpen | RsClosing | RsClosed

datatype console_level = LogLevel | WarnLevel | ErrorLevel

datatype nav_call = GoToNext | GoToPrevious

datatype effect =
    Send nat ClientEvent
  | Console console_level string
  | NavCall nav_call
  | OnTranscript string bool
  | OnUserTranscript string
  | OnError string
  | SetStatus ConnectionStatus
  | SetError "string option"
  | TokenRequest string VoiceOption
  | SdpRequest
  | SetTimeout nat
  | ClearTimeout
  | ChannelClose nat
  | TrackStop nat nat
  | PeerClose nat
  | SinkDetach nat

datatype stage =
    AwaitTokenFetch
  | AwaitErrorJson
  | AwaitTokenJson
  | AwaitUserMedia nat
  | AwaitCreateOffer nat
  | AwaitSetLocalDescription nat
  | AwaitSdpFetch nat
  | AwaitSdpText nat
  | AwaitSetRemoteDescription nat
  | AwaitConnectionState nat

record handle =
  status :: ConnectionStatus
  isAgentSpeaking :: bool
  error :: "string option"
  peerConnectionRef :: "nat option"
  dataChannelRef :: "nat option"
  localStreamRef :: "nat option"
  audioElementRef :: "nat option"
  channels :: "ready_state list"
  peers :: "(bool \<times> nat) list"
  streams :: "bool list list"
  audios :: "bool list"
  pending :: "stage list"
  trace :: "effect list"

type_synonym NavigationCallbacks = "nav_call list \<Rightarrow> nav_call \<Rightarrow> bool"

record realtime = handle +
  navigationCallbacksRef :: "NavigationCallbacks option"

text \<open>
  A function of the hook that may be left by an exception: it returns a value, or throws,
  and \<open>Thrown\<close> holds the state the exception leaves behind.
\<close>

datatype 'a outcome = Returned 'a | Thrown realtime

fun navCalls :: "effect list \<Rightarrow> nav_call list" where
  "navCalls [] = []"
| "navCalls (NavCall c # es) = c # navCalls es"
| "navCalls (e # es) = navCalls es"

definition emit :: "effect \<Rightarrow> ('a handle_scheme) \<Rightarrow> ('a handle_scheme)" where
  "emit e s = s\<lparr>trace := trace s @ [e]\<rparr>"

definition setStatus :: "ConnectionStatus \<Rightarrow> ('a handle_scheme) \<Rightarrow> ('a handle_scheme)" where
  "setStatus st s = emit (SetStatus st) (s\<lparr>status := st\<rparr>)"

definition setError :: "string option \<Rightarrow> ('a handle_scheme) \<Rightarrow> ('a handle_scheme)" where
  "setError e s = emit (SetError e) (s\<lparr>error := e\<rparr>)"

definition setIsAgentSpeaking :: "bool \<Rightarrow> ('a handle_scheme) \<Rightarrow> ('a handle_scheme)" where
  "setIsAgentSpeaking b s = s\<lparr>isAgentSpeaking := b\<rparr>"

definition readyState :: "('a handle_scheme) \<Rightarrow> nat \<Rightarrow> ready_state option" where
  "readyState s d = (if d < length (channels s) then Some (channels s ! d) else None)"


section \<open>useRealtimeConnection: sending\<close>

definition setNavigationCallbacks :: "NavigationCallbacks \<Rightarrow> realtime \<Rightarrow> realtime" where
  "setNavigationCallbacks callbacks s = s\<lparr>navigationCallbacksRef := Some callbacks\<rparr>"

definition sendEvent :: "ClientEvent \<Rightarrow> realtime \<Rightarrow> realtime" where
  "sendEvent event s =
     (case dataChannelRef s of
        None \<Rightarrow> emit (Console WarnLevel ''Data channel not open, cannot send event:'') s
      | Some d \<Rightarrow>
          if readyState s d = Some RsOpen then emit (Send d event) s
          else emit (Console WarnLevel ''Data channel not open, cannot send event:'') s)"

text \<open>
  A call of a navigation callback, \<^verbatim>\<open>navigationCallbacksRef.current.goToNext()\<close>: the call is
  made, and returns or throws as the host's function does.
\<close>

definition invoke :: "NavigationCallbacks \<Rightarrow> nav_call \<Rightarrow> realtime \<Rightarrow> realtime outcome" where
  "invoke callbacks c s =
     (if callbacks (navCalls (trace s)) c then Returned (emit (NavCall c) s)
      else Thrown (emit (NavCall c) s))"

text \<open>
  \<^verbatim>\<open>handleFunctionCall\<close> has no \<^verbatim>\<open>try\<close>: when the callback throws, the function is left
  before \<^verbatim>\<open>result\<close> is assigned, and neither \<^verbatim>\<open>sendEvent\<close> is reached.
\<close>

definition handleFunctionCall :: "string \<Rightarrow> string \<Rightarrow> string option \<Rightarrow> realtime \<Rightarrow> realtime outcome" where
  \<open>handleFunctionCall name callId args s =
     (let s0 = emit (Console LogLevel ''Function call:'') s;
          assigned =
            (if name = GO_TO_NEXT_SLIDE then
               (case navigationCallbacksRef s0 of
                  Some callbacks \<Rightarrow>
                    (case invoke callbacks GoToNext s0 of
                       Returned s1 \<Rightarrow>
                         Returned (JSON_stringify [(''success'', JBool True), (''action'', JString ''navigated_next'')], s1)
                     | Thrown s1 \<Rightarrow> Thrown s1)
                | None \<Rightarrow>
                    Returned (JSON_stringify [(''success'', JBool False), (''error'', JString ''Navigation not available'')], s0))
             else if name = GO_TO_PREVIOUS_SLIDE then
               (case navigationCallbacksRef s0 of
                  Some callbacks \<Rightarrow>
                    (case invoke callbacks GoToPrevious s0 of
                       Returned s1 \<Rightarrow>
                         Returned (JSON_stringify [(''success'', JBool True), (''action'', JString ''navigated_previous'')], s1)
                     | Thrown s1 \<Rightarrow> Thrown s1)
                | None \<Rightarrow>
                    Returned (JSON_stringify [(''success'', JBool False), (''error'', JString ''Navigation not available'')], s0))
             else Returned (JSON_stringify [(''error'', JString (''Unknown function: '' @ name))], s0))
      in (case assigned of
            Returned (result, s1) \<Rightarrow>
              Returned (sendEvent ResponseCreate
                          (sendEvent (ConversationItemCreate (FunctionCallOutput callId result)) s1))
          | Thrown s1 \<Rightarrow> Thrown s1))\<close>

text \<open>
  The loop \<^verbatim>\<open>for (const item of event.response.output)\<close> of the \<^verbatim>\<open>response.done\<close> case; an
  exception leaves the loop.
\<close>

fun forEachOutputItem :: "OutputItem list \<Rightarrow> realtime \<Rightarrow> realtime outcome" where
  "forEachOutputItem [] s = Returned s"
| "forEachOutputItem (item # rest) s =
     (case item of
        FunctionCallItem name callId args \<Rightarrow>
          (case handleFunctionCall name callId args s of
             Returned s1 \<Rightarrow> forEachOutputItem rest s1
           | Thrown s1 \<Rightarrow> Thrown s1)
      | MessageItem \<Rightarrow> forEachOutputItem rest s)"

definition handleServerEvent :: "ServerEvent \<Rightarrow> realtime \<Rightarrow> realtime outcome" where
  "handleServerEvent event s =
     (case event of
        SessionCreated sid \<Rightarrow> Returned (emit (Console LogLevel ''Session created:'') s)
      | SessionUpdated \<Rightarrow> Returned (emit (Console LogLevel ''Session updated'') s)
      | ResponseAudioDelta d \<Rightarrow> Returned (setIsAgentSpeaking True s)
      | ResponseAudioDone \<Rightarrow> Returned (setIsAgentSpeaking False s)
      | ResponseAudioTranscriptDelta d \<Rightarrow> Returned (emit (OnTranscript d False) s)
      | ResponseAudioTranscriptDone t \<Rightarrow> Returned (emit (OnTranscript t True) s)
      | InputAudioTranscriptionCompleted t \<Rightarrow> Returned (emit (OnUserTranscript t) s)
      | InputAudioBufferSpeechStarted \<Rightarrow> Returned (setIsAgentSpeaking False s)
      | ResponseOutputItemDone item \<Rightarrow> Returned s
      | ResponseDone output \<Rightarrow> forEachOutputItem output (setIsAgentSpeaking False s)
      | ErrorEvent m \<Rightarrow>
          Returned (emit (OnError m) (setError (Some m) (emit (Console ErrorLevel ''Realtime API error:'') s)))
      | ConversationItemCreated \<Rightarrow> Returned (emit (Console LogLevel ''Unhandled event:'') s)
      | InputAudioBufferSpeechStopped \<Rightarrow> Returned (emit (Console LogLevel ''Unhandled event:'') s)
      | Unhandled t \<Rightarrow> Returned (emit (Console LogLevel ''Unhandled event:'') s))"

definition sendTextMessage :: "string \<Rightarrow> realtime \<Rightarrow> realtime" where
  "sendTextMessage text s =
     (if status s \<noteq> Connected then emit (Console WarnLevel ''Not connected'') s
      else sendEvent ResponseCreate
             (sendEvent (ConversationItemCreate (Message User [InputText text])) s))"

definition sendHint :: "string \<Rightarrow> realtime \<Rightarrow> realtime" where
  "sendHint message s =
     (if status s \<noteq> Connected then s
      else sendEvent
             (ConversationItemCreate (Message User [InputText (''[Context Update] '' @ message)])) s)"

definition updateInstructions :: "string \<Rightarrow> realtime \<Rightarrow> realtime" where
  "updateInstructions instructions s =
     (if status s \<noteq> Connected then emit (Console WarnLevel ''Not connected'') s
      else sendEvent (SessionUpdate instructions) s)"

section \<open>Printing numbers\<close>

text \<open>
  Template literals print a number in decimal. Slide numbers and HTTP status codes are
  integers; a negative integer prints with a leading minus sign.
\<close>

definition digit_char :: "nat \<Rightarrow> char" where
  "digit_char n = (if n < 10 then ''0123456789'' ! n else CHR ''0'')"

fun show_nat :: "nat \<Rightarrow> string" where
  "show_nat n = (if n < 10 then [digit_char n] else show_nat (n div 10) @ [digit_char (n mod 10)])"

declare show_nat.simps [simp del]

definition show_int :: "int \<Rightarrow> string" where
  "show_int i = (if i < 0 then ''-'' @ show_nat (nat (- i)) else show_nat (nat i))"

section \<open>cleanup and disconnect\<close>

text \<open>
  \<^verbatim>\<open>close()\<close> on a data channel that is connecting or open moves it to closing; the browser
  delivers the \<^verbatim>\<open>close\<close> event later (the \<open>ChannelClosed\<close> event below). Stopping a
  track, closing a peer connection and clearing \<^verbatim>\<open>srcObject\<close> take effect at once.
  The two hooks define \<^verbatim>\<open>cleanup\<close> with the same text, so it is modelled once, on the
  fields they share.
\<close>

definition closeDataChannel :: "nat \<Rightarrow> ('a handle_scheme) \<Rightarrow> ('a handle_scheme)" where
  "closeDataChannel d s =
     emit (ChannelClose d)
       (if d < length (channels s) \<and> (channels s ! d = RsConnecting \<or> channels s ! d = RsOpen)
        then s\<lparr>channels := (channels s)[d := RsClosing]\<rparr>
        else s)"

definition stopTracks :: "nat \<Rightarrow> ('a handle_scheme) \<Rightarrow> ('a handle_scheme)" where
  "stopTracks m s =
     (if m < length (streams s)
      then s\<lparr>streams := (streams s)[m := map (\<lambda>live. False) (streams s ! m)],
             trace := trace s @ map (TrackStop m) [0..<length (streams s ! m)]\<rparr>
      else s)"

definition closePeerConnection :: "nat \<Rightarrow> ('a handle_scheme) \<Rightarrow> ('a handle_scheme)" where
  "closePeerConnection p s =
     emit (PeerClose p)
       (if p < length (peers s)
        then s\<lparr>peers := (peers s)[p := (False, snd (peers s ! p))]\<rparr>
        else s)"

definition detachSink :: "nat \<Rightarrow> ('a handle_scheme) \<Rightarrow> ('a handle_scheme)" where
  "detachSink a s =
     emit (SinkDetach a)
       (if a < length (audios s) then s\<lparr>audios := (audios s)[a := False]\<rparr> else s)"

definition cleanup :: "('a handle_scheme) \<Rightarrow> ('a handle_scheme)" where
  "cleanup s =
     (let s1 = (case dataChannelRef s of
                  Some d \<Rightarrow> (closeDataChannel d s)\<lparr>dataChannelRef := None\<rparr>
                | None \<Rightarrow> s);
          s2 = (case localStreamRef s1 of
                  Some m \<Rightarrow> (stopTracks m s1)\<lparr>localStreamRef := None\<rparr>
                | None \<Rightarrow> s1);
          s3 = (case peerConnectionRef s2 of
                  Some p \<Rightarrow> (closePeerConnection p s2)\<lparr>peerConnectionRef := None\<rparr>
                | None \<Rightarrow> s2)
      in (case audioElementRef s3 of
            Some a \<Rightarrow> (detachSink a s3)\<lparr>audioElementRef := None\<rparr>
          | None \<Rightarrow> s3))"

definition disconnect :: "realtime \<Rightarrow> realtime" where
  "disconnect s = setError None (setIsAgentSpeaking False (setStatus Disconnected (cleanup s)))"

section \<open>connect, one suspension at a time\<close>

text \<open>
  \<^verbatim>\<open>connect\<close> is an \<^verbatim>\<open>async\<close> function: it runs until its next \<^verbatim>\<open>await\<close>, then
  other handlers may run, and it is resumed when the awaited promise settles. Each
  \<open>stage\<close> names the \<^verbatim>\<open>await\<close> a call is suspended at, and carries the peer connection
  \<^verbatim>\<open>pc\<close> once that local exists. The environment resumes a suspended call with an
  \<open>answer\<close>: how the awaited promise settled. A rejection carries the message of the
  \<^verbatim>\<open>Error\<close> thrown, or nothing when the value thrown is not an \<^verbatim>\<open>Error\<close>.

  The wait for the transport arms a timer of 10000 ms (\<open>SetTimeout\<close>); \<open>Timeout\<close>
  is that timer firing before the promise has settled.
\<close>

datatype pc_state = PcNew | PcConnecting | PcConnected | PcDisconnected | PcFailed | PcClosed

datatype answer =
    Response bool nat
  | ErrorData "string option"
  | TokenData string
  | Media nat
  | Fulfilled
  | ConnectionState pc_state
  | Timeout
  | Rejected "string option"

definition CONNECT_TIMEOUT_MS :: nat where
  "CONNECT_TIMEOUT_MS = 10000"

text \<open>\<^verbatim>\<open>err instanceof Error ? err : new Error("Connection failed")\<close>\<close>

definition errorMessage :: "string option \<Rightarrow> string" where
  "errorMessage thrown = (case thrown of Some m \<Rightarrow> m | None \<Rightarrow> ''Connection failed'')"

text \<open>The \<^verbatim>\<open>catch\<close> block of \<^verbatim>\<open>connect\<close>, in the order of its statements.\<close>

definition connectCatch :: "string option \<Rightarrow> realtime \<Rightarrow> realtime" where
  "connectCatch thrown s =
     cleanup
       (setStatus Disconnected
          (emit (OnError (errorMessage thrown))
             (setError (Some (errorMessage thrown))
                (emit (Console ErrorLevel ''Connection error:'') s))))"

text \<open>
  The guard of \<^verbatim>\<open>connect\<close> reads the \<^verbatim>\<open>status\<close> of its closure, the one the render that
  created the function saw: \<open>connectFrom rendered\<close> is the function created by a render
  that saw \<open>rendered\<close>, and \<open>connect\<close> the one created by the render of the present state.
\<close>

definition connectFrom :: "ConnectionStatus \<Rightarrow> string \<Rightarrow> VoiceOption \<Rightarrow> realtime \<Rightarrow> realtime" where
  "connectFrom rendered instructions voice s =
     (if rendered \<noteq> Disconnected then emit (Console WarnLevel ''Already connected or connecting'') s
      else (let s1 = emit (TokenRequest instructions voice) (setError None (setStatus Connecting s))
            in s1\<lparr>pending := pending s1 @ [AwaitTokenFetch]\<rparr>))"

definition connect :: "string \<Rightarrow> VoiceOption \<Rightarrow> realtime \<Rightarrow> realtime" where
  "connect instructions voice s = connectFrom (status s) instructions voice s"

text \<open>
  Steps 2 to 4 of \<^verbatim>\<open>connect\<close>. A new peer connection and its audio element are created
  and stored in the refs; when the capture stream arrives it is stored, its tracks are
  added to \<^verbatim>\<open>pc\<close> and the data channel is created on \<^verbatim>\<open>pc\<close>. Both \<^verbatim>\<open>addTrack\<close> and
  \<^verbatim>\<open>createDataChannel\<close> throw on a peer connection that has been closed.
\<close>

definition createPeerConnection :: "('a handle_scheme) \<Rightarrow> nat \<times> ('a handle_scheme)" where
  "createPeerConnection s =
     (let p = length (peers s); a = length (audios s)
      in (p, s\<lparr>peers := peers s @ [(True, a)], audios := audios s @ [False],
                peerConnectionRef := Some p, audioElementRef := Some a\<rparr>))"

definition peerOpen :: "('a handle_scheme) \<Rightarrow> nat \<Rightarrow> bool" where
  "peerOpen s p = (p < length (peers s) \<and> fst (peers s ! p))"

definition storeStream :: "nat \<Rightarrow> ('a handle_scheme) \<Rightarrow> ('a handle_scheme)" where
  "storeStream n s =
     s\<lparr>streams := streams s @ [replicate n True], localStreamRef := Some (length (streams s))\<rparr>"

definition createDataChannel :: "('a handle_scheme) \<Rightarrow> ('a handle_scheme)" where
  "createDataChannel s =
     s\<lparr>channels := channels s @ [RsConnecting], dataChannelRef := Some (length (channels s))\<rparr>"

text \<open>
  \<open>resume st a s\<close> runs a call suspended at \<open>st\<close> up to its next \<^verbatim>\<open>await\<close> or its end:
  the result is the stage it is suspended at next, if any, and the new state. An answer
  that does not belong to the stage leaves the call suspended.
\<close>

definition resume :: "stage \<Rightarrow> answer \<Rightarrow> realtime \<Rightarrow> stage option \<times> realtime" where
  "resume st a s =
     (case (st, a) of
        (st, Rejected thrown) \<Rightarrow> (None, connectCatch thrown s)
      | (AwaitTokenFetch, Response ok code) \<Rightarrow>
          (if \<not> ok then (Some AwaitErrorJson, s) else (Some AwaitTokenJson, s))
      | (AwaitErrorJson, ErrorData e) \<Rightarrow>
          (None, connectCatch
                   (Some (case e of Some m \<Rightarrow> (if m = [] then ''Failed to get token'' else m)
                                  | None \<Rightarrow> ''Failed to get token'')) s)
      | (AwaitTokenJson, TokenData token) \<Rightarrow>
          (let (p, s1) = createPeerConnection s in (Some (AwaitUserMedia p), s1))
      | (AwaitUserMedia p, Media n) \<Rightarrow>
          (let s1 = storeStream n s
           in if \<not> peerOpen s1 p then (None, connectCatch (Some ''InvalidStateError'') s1)
              else (Some (AwaitCreateOffer p), createDataChannel s1))
      | (AwaitCreateOffer p, Fulfilled) \<Rightarrow> (Some (AwaitSetLocalDescription p), s)
      | (AwaitSetLocalDescription p, Fulfilled) \<Rightarrow> (Some (AwaitSdpFetch p), emit SdpRequest s)
      | (AwaitSdpFetch p, Response ok code) \<Rightarrow>
          (if \<not> ok then (None, connectCatch (Some (''SDP exchange failed: '' @ show_nat code)) s)
           else (Some (AwaitSdpText p), s))
      | (AwaitSdpText p, Fulfilled) \<Rightarrow> (Some (AwaitSetRemoteDescription p), s)
      | (AwaitSetRemoteDescription p, Fulfilled) \<Rightarrow>
          (Some (AwaitConnectionState p), emit (SetTimeout CONNECT_TIMEOUT_MS) s)
      | (AwaitConnectionState p, ConnectionState c) \<Rightarrow>
          (if c = PcConnected
           then (None, emit (Console LogLevel ''WebRTC connection established'') (emit ClearTimeout s))
           else if c = PcFailed then
             (None, connectCatch (Some ''Connection failed: failed'') (emit ClearTimeout s))
           else if c = PcDisconnected then
             (None, connectCatch (Some ''Connection failed: disconnected'') (emit ClearTimeout s))
           else (Some st, s))
      | (AwaitConnectionState p, Timeout) \<Rightarrow> (None, connectCatch (Some ''Connection timeout'') s)
      | (st, a) \<Rightarrow> (Some st, s))"

section \<open>The events of one connection\<close>

text \<open>
  What can happen to a \<^verbatim>\<open>useRealtimeConnection\<close> instance: the host calls one of the
  functions the hook returns, or the browser signals: a suspended \<^verbatim>\<open>connect\<close> is resumed,
  or a listener that \<^verbatim>\<open>connect\<close> registered fires (\<^verbatim>\<open>open\<close>, \<^verbatim>\<open>message\<close> and \<^verbatim>\<open>close\<close>
  on a data channel, \<^verbatim>\<open>ontrack\<close> on a peer connection). Handlers run to completion, one
  after the other. A channel message is the parsed event, or nothing when \<^verbatim>\<open>JSON.parse\<close>
  throws; the \<^verbatim>\<open>try\<close> of the message listener also catches what \<^verbatim>\<open>handleServerEvent\<close>
  throws, and logs it. A channel opens once, from connecting; messages arrive on an open channel; the
  \<^verbatim>\<open>close\<close> event is delivered once.
\<close>

datatype signal =
    Resume nat answer
  | ChannelOpened nat
  | ChannelMessage nat "ServerEvent option"
  | ChannelClosed nat
  | Track nat

datatype event =
    CallConnect string VoiceOption
  | CallDisconnect
  | CallSendTextMessage string
  | CallSendHint string
  | CallUpdateInstructions string
  | CallSetNavigationCallbacks NavigationCallbacks
  | Signal signal

definition onOpen :: "nat \<Rightarrow> realtime \<Rightarrow> realtime" where
  "onOpen d s =
     (if readyState s d = Some RsConnecting
      then setStatus Connected
             (emit (Console LogLevel ''Data channel opened'') (s\<lparr>channels := (channels s)[d := RsOpen]\<rparr>))
      else s)"

definition onMessage :: "nat \<Rightarrow> ServerEvent option \<Rightarrow> realtime \<Rightarrow> realtime" where
  "onMessage d m s =
     (if readyState s d = Some RsOpen
      then (case m of
              Some serverEvent \<Rightarrow>
                (case handleServerEvent serverEvent s of
                   Returned s1 \<Rightarrow> s1
                 | Thrown s1 \<Rightarrow> emit (Console ErrorLevel ''Failed to parse server event:'') s1)
            | None \<Rightarrow> emit (Console ErrorLevel ''Failed to parse server event:'') s)
      else s)"

definition onClose :: "nat \<Rightarrow> realtime \<Rightarrow> realtime" where
  "onClose d s =
     (if d < length (channels s) \<and> channels s ! d \<noteq> RsClosed
      then setStatus Disconnected
             (emit (Console LogLevel ''Data channel closed'') (s\<lparr>channels := (channels s)[d := RsClosed]\<rparr>))
      else s)"

definition onTrack :: "nat \<Rightarrow> ('a handle_scheme) \<Rightarrow> ('a handle_scheme)" where
  "onTrack p s =
     (if peerOpen s p \<and> snd (peers s ! p) < length (audios s)
      then s\<lparr>audios := (audios s)[snd (peers s ! p) := True]\<rparr>
      else s)"

definition resumeAt :: "nat \<Rightarrow> answer \<Rightarrow> realtime \<Rightarrow> realtime" where
  "resumeAt k a s =
     (if k < length (pending s)
      then (let (next, s1) = resume (pending s ! k) a s
            in (case next of
                  Some st \<Rightarrow> s1\<lparr>pending := (pending s1)[k := st]\<rparr>
                | None \<Rightarrow> s1\<lparr>pending := take k (pending s1) @ drop (Suc k) (pending s1)\<rparr>))
      else s)"

fun deliver :: "signal \<Rightarrow> realtime \<Rightarrow> realtime" where
  "deliver (Resume k a) s = resumeAt k a s"
| "deliver (ChannelOpened d) s = onOpen d s"
| "deliver (ChannelMessage d m) s = onMessage d m s"
| "deliver (ChannelClosed d) s = onClose d s"
| "deliver (Track p) s = onTrack p s"

fun step :: "event \<Rightarrow> realtime \<Rightarrow> realtime" where
  "step (CallConnect instructions voice) s = connect instructions voice s"
| "step CallDisconnect s = disconnect s"
| "step (CallSendTextMessage text) s = sendTextMessage text s"
| "step (CallSendHint message) s = sendHint message s"
| "step (CallUpdateInstructions instructions) s = updateInstructions instructions s"
| "step (CallSetNavigationCallbacks callbacks) s = setNavigationCallbacks callbacks s"
| "step (Signal g) s = deliver g s"

fun run :: "event list \<Rightarrow> realtime \<Rightarrow> realtime" where
  "run [] s = s"
| "run (e # es) s = run es (step e s)"

text \<open>The state of a freshly mounted hook.\<close>

definition initial :: realtime where
  "initial = \<lparr>status = Disconnected, isAgentSpeaking = False, error = None,
     peerConnectionRef = None, dataChannelRef = None, localStreamRef = None,
     audioElementRef = None, channels = [], peers = [], streams = [], audios = [],
     pending = [], trace = [], navigationCallbacksRef = None\<rparr>"

section \<open>Personas and modes (lib/realtime/instructions.ts)\<close>

text \<open>
  Of a persona's configuration the hooks read the voice and the greeting style. The two
  instruction builders are long text templates which the hooks pass on unread; they are
  parameters of the functions that call them.
\<close>

datatype InteractionMode = PresenterMode | DialogueMode | AssistantMode

datatype PersonaType = Guide | Coach | Expert | Peer

fun personaVoice :: "PersonaType \<Rightarrow> VoiceOption" where
  "personaVoice Guide = Sage"
| "personaVoice Coach = Verse"
| "personaVoice Expert = Shimmer"
| "personaVoice Peer = Verse"

fun greetingStyle :: "PersonaType \<Rightarrow> string" where
  "greetingStyle Guide = ''warmly''"
| "greetingStyle Coach = ''directly''"
| "greetingStyle Expert = ''professionally''"
| "greetingStyle Peer = ''casually''"

section \<open>VoiceAgentProvider: the session coordinator\<close>

text \<open>
  The field \<^verbatim>\<open>id\<close> of a slide is \<open>slideId\<close> here. \<open>conn\<close> is the state of the
  \<^verbatim>\<open>useRealtimeConnection\<close> instance the provider owns.
\<close>

record SlideMetadata =
  slideId :: string
  title :: string
  slideNumber :: int
  totalSlides :: int

type_synonym overview = "(string \<times> string) list"

type_synonym builder = "SlideMetadata \<Rightarrow> overview \<Rightarrow> InteractionMode \<Rightarrow> PersonaType \<Rightarrow> string"

record coordinator =
  currentSlideRef :: "SlideMetadata option"
  slideOverviewRef :: overview
  modeRef :: InteractionMode
  personaRef :: PersonaType
  hasGreetedRef :: bool
  conn :: realtime

definition buildCurrentInstructions :: "builder \<Rightarrow> coordinator \<Rightarrow> string" where
  "buildCurrentInstructions buildInstructions c =
     (case currentSlideRef c of
        None \<Rightarrow> ''You are a helpful presentation assistant. Wait for the presentation to load.''
      | Some currentSlide \<Rightarrow>
          if slideOverviewRef c = []
          then ''You are a helpful presentation assistant. Wait for the presentation to load.''
          else buildInstructions currentSlide (slideOverviewRef c) (modeRef c) (personaRef c))"

definition setMode :: "builder \<Rightarrow> InteractionMode \<Rightarrow> coordinator \<Rightarrow> coordinator" where
  "setMode buildInstructions newMode c =
     (let c1 = c\<lparr>modeRef := newMode\<rparr>
      in if status (conn c1) = Connected
         then c1\<lparr>conn := updateInstructions (buildCurrentInstructions buildInstructions c1) (conn c1)\<rparr>
         else c1)"

definition setPersona :: "builder \<Rightarrow> PersonaType \<Rightarrow> coordinator \<Rightarrow> coordinator" where
  "setPersona buildInstructions newPersona c =
     (let c1 = c\<lparr>personaRef := newPersona\<rparr>
      in if status (conn c1) = Connected
         then c1\<lparr>conn := updateInstructions (buildCurrentInstructions buildInstructions c1) (conn c1)\<rparr>
         else c1)"

definition startSession :: "builder \<Rightarrow> coordinator \<Rightarrow> coordinator" where
  "startSession buildInstructions c =
     (let instructions = buildCurrentInstructions buildInstructions c;
          c1 = c\<lparr>hasGreetedRef := False\<rparr>
      in c1\<lparr>conn := connect instructions (personaVoice (personaRef c1)) (conn c1)\<rparr>)"

definition endSession :: "coordinator \<Rightarrow> coordinator" where
  "endSession c = (c\<lparr>conn := disconnect (conn c)\<rparr>)\<lparr>hasGreetedRef := False\<rparr>"

definition greetingPrompt :: "SlideMetadata \<Rightarrow> InteractionMode \<Rightarrow> PersonaType \<Rightarrow> string" where
  \<open>greetingPrompt currentSlide mode persona =
     (case mode of
        PresenterMode \<Rightarrow>
          ''You've just connected to present. The user is on slide '' @ show_int (slideNumber currentSlide) @
          '': "'' @ title currentSlide @ ''". '' @
          ''Greet them '' @ greetingStyle persona @ '', then begin presenting this slide.''
      | DialogueMode \<Rightarrow>
          ''You've just connected for a conversation. The user is on slide '' @ show_int (slideNumber currentSlide) @
          '': "'' @ title currentSlide @ ''". '' @
          ''Greet them '' @ greetingStyle persona @
          '', then start a conversation about this slide - ask them a question to kick things off. '' @
          ''Remember: this is a dialogue, not a presentation. Draw out their thinking.''
      | AssistantMode \<Rightarrow>
          ''You've just connected as an assistant. The user is on slide '' @ show_int (slideNumber currentSlide) @
          '': "'' @ title currentSlide @ ''". '' @
          ''Greet them '' @ greetingStyle persona @
          '' and let them know you're here if they have any questions. '' @
          ''Don't start explaining - wait for them to ask or comment.'')\<close>

text \<open>
  The effect \<^verbatim>\<open>useEffect(..., [status, rawSendTextMessage])\<close>. \<^verbatim>\<open>rawSendTextMessage\<close> is
  rebuilt exactly when \<^verbatim>\<open>status\<close> changes, so the effect runs after a handler that changed
  \<^verbatim>\<open>status\<close>.
\<close>

definition greetingEffect :: "coordinator \<Rightarrow> coordinator" where
  "greetingEffect c =
     (if status (conn c) = Connected \<and> \<not> hasGreetedRef c
      then (let c1 = c\<lparr>hasGreetedRef := True\<rparr>
            in (case currentSlideRef c1 of
                  Some currentSlide \<Rightarrow>
                    c1\<lparr>conn := sendTextMessage
                                  (greetingPrompt currentSlide (modeRef c1) (personaRef c1)) (conn c1)\<rparr>
                | None \<Rightarrow> c1))
      else c)"

definition slideChangeHint :: "SlideMetadata \<Rightarrow> InteractionMode \<Rightarrow> string" where
  \<open>slideChangeHint metadata mode =
     ''User navigated to slide '' @ show_int (slideNumber metadata) @ '' of '' @
     show_int (totalSlides metadata) @ '': "'' @ title metadata @ ''". '' @
     (case mode of
        PresenterMode \<Rightarrow> ''Transition smoothly to presenting this new slide.''
      | DialogueMode \<Rightarrow>
          ''Continue the conversation naturally - perhaps connect this to what you were just discussing, or ask what catches their eye.''
      | AssistantMode \<Rightarrow>
          ''They're exploring. Don't explain unless they ask - just acknowledge briefly if at all.'')\<close>

definition setCurrentSlide :: "builder \<Rightarrow> SlideMetadata \<Rightarrow> coordinator \<Rightarrow> coordinator" where
  "setCurrentSlide buildInstructions metadata c =
     (let previousSlide = currentSlideRef c;
          c1 = c\<lparr>currentSlideRef := Some metadata\<rparr>
      in if status (conn c1) = Connected
         then (let k1 = updateInstructions (buildCurrentInstructions buildInstructions c1) (conn c1);
                   k2 = (case previousSlide of
                           Some previous \<Rightarrow>
                             if slideNumber previous \<noteq> slideNumber metadata
                             then sendHint (slideChangeHint metadata (modeRef c1)) k1
                             else k1
                         | None \<Rightarrow> k1)
               in c1\<lparr>conn := k2\<rparr>)
         else c1)"

definition setSlideOverview :: "overview \<Rightarrow> coordinator \<Rightarrow> coordinator" where
  "setSlideOverview slides c = c\<lparr>slideOverviewRef := slides\<rparr>"

definition registerNavigationCallbacks :: "NavigationCallbacks \<Rightarrow> coordinator \<Rightarrow> coordinator" where
  "registerNavigationCallbacks callbacks c = c\<lparr>conn := setNavigationCallbacks callbacks (conn c)\<rparr>"

text \<open>The wrapped \<^verbatim>\<open>sendHint\<close> and \<^verbatim>\<open>sendTextMessage\<close> of the context value.\<close>

definition contextSendHint :: "string \<Rightarrow> coordinator \<Rightarrow> coordinator" where
  "contextSendHint message c =
     (if status (conn c) = Connected then c\<lparr>conn := sendHint message (conn c)\<rparr> else c)"

definition contextSendTextMessage :: "string \<Rightarrow> coordinator \<Rightarrow> coordinator" where
  "contextSendTextMessage text c =
     (if status (conn c) = Connected then c\<lparr>conn := sendTextMessage text (conn c)\<rparr> else c)"

datatype coordinator_event =
    StartSession
  | EndSession
  | SetMode InteractionMode
  | SetPersona PersonaType
  | SetCurrentSlide SlideMetadata
  | SetSlideOverview overview
  | RegisterNavigationCallbacks NavigationCallbacks
  | SendHint string
  | SendTextMessage string
  | Browser signal

fun handler :: "builder \<Rightarrow> coordinator_event \<Rightarrow> coordinator \<Rightarrow> coordinator" where
  "handler b StartSession c = startSession b c"
| "handler b EndSession c = endSession c"
| "handler b (SetMode m) c = setMode b m c"
| "handler b (SetPersona p) c = setPersona b p c"
| "handler b (SetCurrentSlide metadata) c = setCurrentSlide b metadata c"
| "handler b (SetSlideOverview slides) c = setSlideOverview slides c"
| "handler b (RegisterNavigationCallbacks callbacks) c = registerNavigationCallbacks callbacks c"
| "handler b (SendHint message) c = contextSendHint message c"
| "handler b (SendTextMessage text) c = contextSendTextMessage text c"
| "handler b (Browser g) c = c\<lparr>conn := deliver g (conn c)\<rparr>"

text \<open>A handler, then the render it caused: the greeting effect runs if \<^verbatim>\<open>status\<close> changed.\<close>

definition cstep :: "builder \<Rightarrow> coordinator_event \<Rightarrow> coordinator \<Rightarrow> coordinator" where
  "cstep b e c =
     (let c1 = handler b e c
      in if status (conn c1) \<noteq> status (conn c) then greetingEffect c1 else c1)"

fun crun :: "builder \<Rightarrow> coordinator_event list \<Rightarrow> coordinator \<Rightarrow> coordinator" where
  "crun b [] c = c"
| "crun b (e # es) c = crun b es (cstep b e c)"

definition mounted :: coordinator where
  "mounted = \<lparr>currentSlideRef = None, slideOverviewRef = [], modeRef = DialogueMode,
     personaRef = Guide, hasGreetedRef = False, conn = initial\<rparr>"

section \<open>useAuditionSession\<close>

text \<open>
  The audition hook has its own state: the fields of a handle, the active persona, and the
  100 ms timers armed by \<^verbatim>\<open>open\<close> listeners (each remembers its channel). Its
  \<^verbatim>\<open>startAudition\<close> goes through the same suspensions as \<^verbatim>\<open>connect\<close>.
\<close>

record audition = handle +
  activePersona :: "PersonaType option"
  timers :: "nat list"

definition setActivePersona :: "PersonaType option \<Rightarrow> audition \<Rightarrow> audition" where
  "setActivePersona p s = s\<lparr>activePersona := p\<rparr>"

definition handleAuditionEvent :: "ServerEvent \<Rightarrow> audition \<Rightarrow> audition" where
  "handleAuditionEvent event s =
     (case event of
        SessionCreated sid \<Rightarrow> emit (Console LogLevel ''Audition session created:'') s
      | ResponseAudioDelta d \<Rightarrow> setIsAgentSpeaking True s
      | ResponseAudioDone \<Rightarrow> setIsAgentSpeaking False s
      | ResponseDone items \<Rightarrow> setIsAgentSpeaking False s
      | InputAudioBufferSpeechStarted \<Rightarrow> setIsAgentSpeaking False s
      | ErrorEvent m \<Rightarrow> setError (Some m) (emit (Console ErrorLevel ''Audition error:'') s)
      | _ \<Rightarrow> s)"

definition startAuditionCatch :: "string option \<Rightarrow> audition \<Rightarrow> audition" where
  "startAuditionCatch thrown s =
     cleanup
       (setActivePersona None
          (setStatus Disconnected
             (setError (Some (errorMessage thrown))
                (emit (Console ErrorLevel ''Audition connection error:'') s))))"

definition startAudition :: "(PersonaType \<Rightarrow> string) \<Rightarrow> PersonaType \<Rightarrow> audition \<Rightarrow> audition" where
  "startAudition buildAuditionInstructions persona s =
     (let s0 = (if status s \<noteq> Disconnected then cleanup s else s);
          s1 = setError None (setActivePersona (Some persona) (setStatus Connecting s0));
          s2 = emit (TokenRequest (buildAuditionInstructions persona) (personaVoice persona)) s1
      in s2\<lparr>pending := pending s2 @ [AwaitTokenFetch]\<rparr>)"

definition resumeAudition :: "stage \<Rightarrow> answer \<Rightarrow> audition \<Rightarrow> stage option \<times> audition" where
  "resumeAudition st a s =
     (case (st, a) of
        (st, Rejected thrown) \<Rightarrow> (None, startAuditionCatch thrown s)
      | (AwaitTokenFetch, Response ok code) \<Rightarrow>
          (if \<not> ok then (Some AwaitErrorJson, s) else (Some AwaitTokenJson, s))
      | (AwaitErrorJson, ErrorData e) \<Rightarrow>
          (None, startAuditionCatch
                   (Some (case e of Some m \<Rightarrow> (if m = [] then ''Failed to get token'' else m)
                                  | None \<Rightarrow> ''Failed to get token'')) s)
      | (AwaitTokenJson, TokenData token) \<Rightarrow>
          (let (p, s1) = createPeerConnection s in (Some (AwaitUserMedia p), s1))
      | (AwaitUserMedia p, Media n) \<Rightarrow>
          (let s1 = storeStream n s
           in if \<not> peerOpen s1 p then (None, startAuditionCatch (Some ''InvalidStateError'') s1)
              else (Some (AwaitCreateOffer p), createDataChannel s1))
      | (AwaitCreateOffer p, Fulfilled) \<Rightarrow> (Some (AwaitSetLocalDescription p), s)
      | (AwaitSetLocalDescription p, Fulfilled) \<Rightarrow> (Some (AwaitSdpFetch p), emit SdpRequest s)
      | (AwaitSdpFetch p, Response ok code) \<Rightarrow>
          (if \<not> ok then (None, startAuditionCatch (Some (''SDP exchange failed: '' @ show_nat code)) s)
           else (Some (AwaitSdpText p), s))
      | (AwaitSdpText p, Fulfilled) \<Rightarrow> (Some (AwaitSetRemoteDescription p), s)
      | (AwaitSetRemoteDescription p, Fulfilled) \<Rightarrow>
          (Some (AwaitConnectionState p), emit (SetTimeout CONNECT_TIMEOUT_MS) s)
      | (AwaitConnectionState p, ConnectionState c) \<Rightarrow>
          (if c = PcConnected
           then (None, emit (Console LogLevel ''Audition connection established for'') (emit ClearTimeout s))
           else if c = PcFailed then
             (None, startAuditionCatch (Some ''Connection failed: failed'') (emit ClearTimeout s))
           else if c = PcDisconnected then
             (None, startAuditionCatch (Some ''Connection failed: disconnected'') (emit ClearTimeout s))
           else (Some st, s))
      | (AwaitConnectionState p, Timeout) \<Rightarrow> (None, startAuditionCatch (Some ''Connection timeout'') s)
      | (st, a) \<Rightarrow> (Some st, s))"

definition endAudition :: "audition \<Rightarrow> audition" where
  "endAudition s =
     setError None (setIsAgentSpeaking False (setActivePersona None (setStatus Disconnected (cleanup s))))"

datatype audition_event =
    CallStartAudition PersonaType
  | CallEndAudition
  | AuditionSignal signal
  | TimerFired nat

definition auditionOnOpen :: "nat \<Rightarrow> audition \<Rightarrow> audition" where
  "auditionOnOpen d s =
     (if readyState s d = Some RsConnecting
      then (let s1 = setStatus Connected
                       (emit (Console LogLevel ''Audition data channel opened'')
                          (s\<lparr>channels := (channels s)[d := RsOpen]\<rparr>))
            in s1\<lparr>timers := timers s1 @ [d]\<rparr>)
      else s)"

definition auditionOnTimer :: "nat \<Rightarrow> audition \<Rightarrow> audition" where
  "auditionOnTimer d s =
     (if d \<in> set (timers s)
      then (let s1 = s\<lparr>timers := remove1 d (timers s)\<rparr>
            in if readyState s1 d = Some RsOpen then emit (Send d ResponseCreate) s1 else s1)
      else s)"

definition auditionOnMessage :: "nat \<Rightarrow> ServerEvent option \<Rightarrow> audition \<Rightarrow> audition" where
  "auditionOnMessage d m s =
     (if readyState s d = Some RsOpen
      then (case m of
              Some serverEvent \<Rightarrow> handleAuditionEvent serverEvent s
            | None \<Rightarrow> emit (Console ErrorLevel ''Failed to parse audition event:'') s)
      else s)"

definition auditionOnClose :: "nat \<Rightarrow> audition \<Rightarrow> audition" where
  "auditionOnClose d s =
     (if d < length (channels s) \<and> channels s ! d \<noteq> RsClosed
      then setActivePersona None
             (setStatus Disconnected
                (emit (Console LogLevel ''Audition data channel closed'')
                   (s\<lparr>channels := (channels s)[d := RsClosed]\<rparr>)))
      else s)"

definition auditionResumeAt :: "nat \<Rightarrow> answer \<Rightarrow> audition \<Rightarrow> audition" where
  "auditionResumeAt k a s =
     (if k < length (pending s)
      then (let (next, s1) = resumeAudition (pending s ! k) a s
            in (case next of
                  Some st \<Rightarrow> s1\<lparr>pending := (pending s1)[k := st]\<rparr>
                | None \<Rightarrow> s1\<lparr>pending := take k (pending s1) @ drop (Suc k) (pending s1)\<rparr>))
      else s)"

fun auditionStep :: "(PersonaType \<Rightarrow> string) \<Rightarrow> audition_event \<Rightarrow> audition \<Rightarrow> audition" where
  "auditionStep b (CallStartAudition persona) s = startAudition b persona s"
| "auditionStep b CallEndAudition s = endAudition s"
| "auditionStep b (AuditionSignal (Resume k a)) s = auditionResumeAt k a s"
| "auditionStep b (AuditionSignal (ChannelOpened d)) s = auditionOnOpen d s"
| "auditionStep b (AuditionSignal (ChannelMessage d m)) s = auditionOnMessage d m s"
| "auditionStep b (AuditionSignal (ChannelClosed d)) s = auditionOnClose d s"
| "auditionStep b (AuditionSignal (Track p)) s = onTrack p s"
| "auditionStep b (TimerFired d) s = auditionOnTimer d s"

fun auditionRun :: "(PersonaType \<Rightarrow> string) \<Rightarrow> audition_event list \<Rightarrow> audition \<Rightarrow> audition" where
  "auditionRun b [] s = s"
| "auditionRun b (e # es) s = auditionRun b es (auditionStep b e s)"

definition auditionInitial :: audition where
  "auditionInitial = \<lparr>status = Disconnected, isAgentSpeaking = False, error = None,
     peerConnectionRef = None, dataChannelRef = None, localStreamRef = None,
     audioElementRef = None, channels = [], peers = [], streams = [], audios = [],
     pending = [], trace = [], activePersona = None, timers = []\<rparr>"

section \<open>Reading a state\<close>

text \<open>The objects that still hold a resource: channels not closed or closing, live tracks, open peers.\<close>

definition openChannels :: "('a handle_scheme) \<Rightarrow> nat list" where
  "openChannels s = filter (\<lambda>d. channels s ! d = RsConnecting \<or> channels s ! d = RsOpen) [0..<length (channels s)]"

definition liveTracks :: "('a handle_scheme) \<Rightarrow> nat" where
  "liveTracks s = length (filter (\<lambda>live. live) (concat (streams s)))"

definition openPeers :: "('a handle_scheme) \<Rightarrow> nat list" where
  "openPeers s = filter (\<lambda>p. fst (peers s ! p)) [0..<length (peers s)]"

definition attachedSinks :: "('a handle_scheme) \<Rightarrow> nat list" where
  "attachedSinks s = filter (\<lambda>a. audios s ! a) [0..<length (audios s)]"

section \<open>Reading a trace\<close>

fun sends :: "effect list \<Rightarrow> ClientEvent list" where
  "sends [] = []"
| "sends (Send d ev # es) = ev # sends es"
| "sends (e # es) = sends es"

text \<open>What a handler added to the trace it started from.\<close>

definition added :: "('a handle_scheme) \<Rightarrow> ('b handle_scheme) \<Rightarrow> effect list" where
  "added s s' = drop (length (trace s)) (trace s')"

section \<open>Expected replies and reference states\<close>

text \<open>
  The payload a function call is answered with, written out as JSON text, and the host
  callback it invokes; \<open>replies\<close> lists what a finished response is answered with, call by
  call. \<open>established\<close> is the state after the host has registered navigation callbacks
  that return, connected, and the data channel has opened; \<open>unreliable\<close> is the same with
  callbacks that throw, \<open>unregistered\<close> the same without callbacks. \<open>stateOf\<close> is the state
  a function leaves, however it is left.
\<close>

definition resultFor :: "bool \<Rightarrow> string \<Rightarrow> string" where
  \<open>resultFor registered name =
     (if name = ''goToNextSlide'' then
        (if registered then ''{"success":true,"action":"navigated_next"}''
         else ''{"success":false,"error":"Navigation not available"}'')
      else if name = ''goToPreviousSlide'' then
        (if registered then ''{"success":true,"action":"navigated_previous"}''
         else ''{"success":false,"error":"Navigation not available"}'')
      else ''{"error":'' @ quoteJSON (''Unknown function: '' @ name) @ ''}'')\<close>

definition navFor :: "bool \<Rightarrow> string \<Rightarrow> nav_call list" where
  "navFor registered name =
     (if \<not> registered then []
      else if name = ''goToNextSlide'' then [GoToNext]
      else if name = ''goToPreviousSlide'' then [GoToPrevious]
      else [])"

fun replies :: "bool \<Rightarrow> OutputItem list \<Rightarrow> ClientEvent list" where
  "replies registered [] = []"
| "replies registered (MessageItem # rest) = replies registered rest"
| "replies registered (FunctionCallItem name callId args # rest) =
     ConversationItemCreate (FunctionCallOutput callId (resultFor registered name)) #
     ResponseCreate # replies registered rest"

fun isFunctionCall :: "OutputItem \<Rightarrow> bool" where
  "isFunctionCall (FunctionCallItem name callId args) = True"
| "isFunctionCall MessageItem = False"

fun isItemDone :: "event \<Rightarrow> bool" where
  "isItemDone (Signal (ChannelMessage d (Some (ResponseOutputItemDone item)))) = True"
| "isItemDone e = False"

fun isResponseDone :: "event \<Rightarrow> bool" where
  "isResponseDone (Signal (ChannelMessage d (Some (ResponseDone items)))) = True"
| "isResponseDone e = False"

definition negotiation :: "event list" where
  "negotiation = [CallConnect ''hello'' Shimmer,
     Signal (Resume 0 (Response True 200)), Signal (Resume 0 (TokenData ''ek_1'')),
     Signal (Resume 0 (Media 1)), Signal (Resume 0 Fulfilled), Signal (Resume 0 Fulfilled),
     Signal (Resume 0 (Response True 201)), Signal (Resume 0 Fulfilled), Signal (Resume 0 Fulfilled),
     Signal (Resume 0 (ConnectionState PcConnected)), Signal (ChannelOpened 0)]"

definition reliable :: NavigationCallbacks where
  "reliable history c = True"

definition failing :: NavigationCallbacks where
  "failing history c = False"

definition stateOf :: "realtime outcome \<Rightarrow> realtime" where
  "stateOf r = (case r of Returned s \<Rightarrow> s | Thrown s \<Rightarrow> s)"

fun isReturned :: "'a outcome \<Rightarrow> bool" where
  "isReturned (Returned x) = True"
| "isReturned (Thrown s) = False"

text \<open>Whether the navigation callback that a function call of this name reaches, if any, returns.\<close>

definition callbackReturns :: "realtime \<Rightarrow> string \<Rightarrow> bool" where
  "callbackReturns s name =
     (case navigationCallbacksRef s of
        None \<Rightarrow> True
      | Some callbacks \<Rightarrow>
          if name = ''goToNextSlide'' then callbacks (navCalls (trace s)) GoToNext
          else if name = ''goToPreviousSlide'' then callbacks (navCalls (trace s)) GoToPrevious
          else True)"

definition twoCalls :: "OutputItem list" where
  "twoCalls = [FunctionCallItem ''goToNextSlide'' ''c1'' None, FunctionCallItem ''goToNextSlide'' ''c2'' None]"

definition established :: realtime where
  "established = run (CallSetNavigationCallbacks reliable # negotiation) initial"

definition unreliable :: realtime where
  "unreliable = run (CallSetNavigationCallbacks failing # negotiation) initial"

definition unregistered :: realtime where
  "unregistered = run negotiation initial"

section \<open>Reference inputs of the coordinator\<close>

text \<open>
  A stand-in instruction builder, three slides (the third differs from the second in id and
  title only), and the coordinator run from the mounted state through a negotiation, once
  with no slide held (\<open>negotiatedWithoutSlide\<close>), once on the first slide
  (\<open>negotiatedOnSlide\<close>). \<open>openingWithoutSlide\<close> and \<open>openingOnSlide\<close> are these states after
  the \<^verbatim>\<open>open\<close> listener of the data channel, before the render it causes; \<open>presenting\<close>
  is the latter after that render, effects included. \<open>laterEvents\<close> is what a host may do in
  the rest of a session, \<open>secondSession\<close> ends the session and negotiates another.

  A user message that is not a hint is recognised by its text: hints carry the prefix
  \<^verbatim>\<open>[Context Update] \<close>. \<open>userTexts\<close> lists the texts of the other user messages sent. The
  events of one session are those that neither reset the greeting flag nor ask for a text
  message on the host's behalf.
\<close>

definition plainBuilder :: builder where
  "plainBuilder currentSlide slideOverview mode persona = ''Slide: '' @ title currentSlide"

definition slide1 :: SlideMetadata where
  "slide1 = \<lparr>slideId = ''intro'', title = ''Introduction'', slideNumber = 1, totalSlides = 3\<rparr>"

definition slide2 :: SlideMetadata where
  "slide2 = \<lparr>slideId = ''method'', title = ''Method'', slideNumber = 2, totalSlides = 3\<rparr>"

definition slide2b :: SlideMetadata where
  "slide2b = \<lparr>slideId = ''method-b'', title = ''Method, continued'', slideNumber = 2, totalSlides = 3\<rparr>"

definition sessionScript :: "coordinator_event list" where
  "sessionScript = [StartSession,
     Browser (Resume 0 (Response True 200)), Browser (Resume 0 (TokenData ''ek_1'')),
     Browser (Resume 0 (Media 1)), Browser (Resume 0 Fulfilled), Browser (Resume 0 Fulfilled),
     Browser (Resume 0 (Response True 201)), Browser (Resume 0 Fulfilled), Browser (Resume 0 Fulfilled),
     Browser (Resume 0 (ConnectionState PcConnected))]"

definition negotiatedWithoutSlide :: coordinator where
  "negotiatedWithoutSlide = crun plainBuilder sessionScript mounted"

definition negotiatedOnSlide :: coordinator where
  "negotiatedOnSlide =
     crun plainBuilder
       ([SetSlideOverview [(''intro'', ''Introduction''), (''method'', ''Method''), (''end'', ''End'')],
         SetCurrentSlide slide1] @ sessionScript) mounted"

definition openingWithoutSlide :: coordinator where
  "openingWithoutSlide = handler plainBuilder (Browser (ChannelOpened 0)) negotiatedWithoutSlide"

definition openingOnSlide :: coordinator where
  "openingOnSlide = handler plainBuilder (Browser (ChannelOpened 0)) negotiatedOnSlide"


definition presenting :: coordinator where
  "presenting = cstep plainBuilder (Browser (ChannelOpened 0)) negotiatedOnSlide"


definition isHintText :: "string \<Rightarrow> bool" where
  "isHintText t = (take 17 t = ''[Context Update] '')"

fun textOf :: "ClientEvent \<Rightarrow> string list" where
  "textOf (ConversationItemCreate (Message User [InputText t])) = (if isHintText t then [] else [t])"
| "textOf ev = []"

definition userTexts :: "effect list \<Rightarrow> string list" where
  "userTexts es = concat (map textOf (sends es))"




section \<open>Resources, ownership and failure\<close>

text \<open>
  A channel is live while connecting or open, a stream while one of its tracks is live, a
  sink while a \<^verbatim>\<open>srcObject\<close> is attached. \<open>releases\<close> lists the effects of \<^verbatim>\<open>cleanup\<close>, in
  its order. \<open>beforeCleanup\<close> is the \<^verbatim>\<open>catch\<close> block of \<^verbatim>\<open>connect\<close> up to, and without,
  its last statement \<^verbatim>\<open>cleanup()\<close>.

  A resumption establishes the connection when the transport reports connected; every
  other resumption that ends the call is a failure: \<open>thrownBy\<close> is the value caught, and
  \<open>failurePoint\<close> the state in which it is caught. The final wait is the last \<^verbatim>\<open>await\<close> of
  \<^verbatim>\<open>connect\<close>, the one for the transport; \<open>timersArmed\<close> lists the delays of the timers a
  trace has armed.

  \<open>waiting\<close> is a connect call suspended in its wait for the transport, with the data
  channel already open and the remote track attached to the sink. \<open>prompting\<close> is a connect
  call suspended at \<^verbatim>\<open>getUserMedia\<close>. \<open>reconnect\<close> is a session whose data channel is closed
  by the remote side, followed by a second connect call that reaches its wait for the
  transport, where its timer fires. \<open>race\<close> is a call to
  \<^verbatim>\<open>connect\<close>, a call to \<^verbatim>\<open>disconnect\<close> while the token request is pending, and the rest of
  the negotiation. \<open>overlap\<close> is two calls of \<^verbatim>\<open>startAudition\<close>, the second while the token
  request of the first is pending, both negotiations run to their end.
\<close>

definition channelLive :: "('a handle_scheme) \<Rightarrow> nat \<Rightarrow> bool" where
  "channelLive s d = (d < length (channels s) \<and> (channels s ! d = RsConnecting \<or> channels s ! d = RsOpen))"

definition streamLive :: "('a handle_scheme) \<Rightarrow> nat \<Rightarrow> bool" where
  "streamLive s m = (m < length (streams s) \<and> True \<in> set (streams s ! m))"

definition sinkAttached :: "('a handle_scheme) \<Rightarrow> nat \<Rightarrow> bool" where
  "sinkAttached s a = (a < length (audios s) \<and> audios s ! a)"

definition releases :: "('a handle_scheme) \<Rightarrow> effect list" where
  "releases s =
     (case dataChannelRef s of Some d \<Rightarrow> [ChannelClose d] | None \<Rightarrow> []) @
     (case localStreamRef s of
        Some m \<Rightarrow> (if m < length (streams s) then map (TrackStop m) [0..<length (streams s ! m)] else [])
      | None \<Rightarrow> []) @
     (case peerConnectionRef s of Some p \<Rightarrow> [PeerClose p] | None \<Rightarrow> []) @
     (case audioElementRef s of Some a \<Rightarrow> [SinkDetach a] | None \<Rightarrow> [])"


fun timersArmed :: "effect list \<Rightarrow> nat list" where
  "timersArmed [] = []"
| "timersArmed (SetTimeout ms # es) = ms # timersArmed es"
| "timersArmed (e # es) = timersArmed es"



fun statusWrites :: "effect list \<Rightarrow> ConnectionStatus list" where
  "statusWrites [] = []"
| "statusWrites (SetStatus st # es) = st # statusWrites es"
| "statusWrites (e # es) = statusWrites es"

definition race :: "event list" where
  "race = [CallConnect ''hello'' Shimmer, CallDisconnect] @ tl negotiation"

definition plainAudition :: "PersonaType \<Rightarrow> string" where
  "plainAudition persona = ''Introduce yourself.''"

definition overlap :: "audition_event list" where
  "overlap =
     [CallStartAudition Guide, CallStartAudition Coach,
      AuditionSignal (Resume 0 (Response True 200)), AuditionSignal (Resume 1 (Response True 200)),
      AuditionSignal (Resume 0 (TokenData ''ek_1'')), AuditionSignal (Resume 1 (TokenData ''ek_2'')),
      AuditionSignal (Resume 0 (Media 1)), AuditionSignal (Resume 1 (Media 1)),
      AuditionSignal (Resume 0 Fulfilled), AuditionSignal (Resume 1 Fulfilled),
      AuditionSignal (Resume 0 Fulfilled), AuditionSignal (Resume 1 Fulfilled),
      AuditionSignal (Resume 0 (Response True 201)), AuditionSignal (Resume 1 (Response True 201)),
      AuditionSignal (Resume 0 Fulfilled), AuditionSignal (Resume 1 Fulfilled),
      AuditionSignal (Resume 0 Fulfilled), AuditionSignal (Resume 1 Fulfilled),
      AuditionSignal (Resume 0 (ConnectionState PcConnected)),
      AuditionSignal (Resume 0 (ConnectionState PcConnected)),
      AuditionSignal (ChannelOpened 0), AuditionSignal (ChannelOpened 1),
      TimerFired 0, TimerFired 1]"

definition beforeCleanup :: "string option \<Rightarrow> realtime \<Rightarrow> realtime" where
  "beforeCleanup thrown s = setStatus Disconnected
          (emit (OnError (errorMessage thrown))
             (setError (Some (errorMessage thrown))
                (emit (Console ErrorLevel ''Connection error:'') s)))"






section \<open>Properties\<close>

subsection \<open>Evaluation and trace lemmas\<close>

lemmas run_defs = negotiation_def initial_def setNavigationCallbacks_def connect_def connectFrom_def
      setStatus_def setError_def emit_def resumeAt_def resume_def Let_def createPeerConnection_def
      storeStream_def peerOpen_def createDataChannel_def CONNECT_TIMEOUT_MS_def onOpen_def readyState_def

lemma established_eq:
  "established = \<lparr>status = Connected, isAgentSpeaking = False, error = None,
      peerConnectionRef = Some 0, dataChannelRef = Some 0, localStreamRef = Some 0,
      audioElementRef = Some 0, channels = [RsOpen], peers = [(True, 0)],
      streams = [[True]], audios = [False], pending = [],
      trace =
        [SetStatus Connecting, SetError None, TokenRequest ''hello'' Shimmer, SdpRequest,
         SetTimeout 10000, ClearTimeout, Console LogLevel ''WebRTC connection established'',
         Console LogLevel ''Data channel opened'', SetStatus Connected],
      navigationCallbacksRef = Some reliable\<rparr>"
  by (simp add: established_def run_defs)

lemma unregistered_eq:
  "unregistered = established\<lparr>navigationCallbacksRef := None\<rparr>"
  by (simp add: established_eq) (simp add: unregistered_def run_defs)

lemma unreliable_eq:
  "unreliable = established\<lparr>navigationCallbacksRef := Some failing\<rparr>"
  by (simp add: established_eq) (simp add: unreliable_def run_defs)

lemma established_open:
  "status established = Connected" "dataChannelRef established = Some 0"
  "readyState established 0 = Some RsOpen" "navigationCallbacksRef established = Some reliable"
  by (simp_all add: established_eq readyState_def)

lemma unregistered_open:
  "status unregistered = Connected" "dataChannelRef unregistered = Some 0"
  "readyState unregistered 0 = Some RsOpen" "navigationCallbacksRef unregistered = None"
  by (simp_all add: unregistered_eq established_eq readyState_def)

lemma unreliable_open:
  "status unreliable = Connected" "dataChannelRef unreliable = Some 0"
  "readyState unreliable 0 = Some RsOpen" "navigationCallbacksRef unreliable = Some failing"
  by (simp_all add: unreliable_eq established_eq readyState_def)

lemma readyState_update [simp]:
  "readyState (s\<lparr>trace := t\<rparr>) d = readyState s d"
  "readyState (s\<lparr>isAgentSpeaking := b\<rparr>) d = readyState s d"
  "readyState (s\<lparr>status := st\<rparr>) d = readyState s d"
  "readyState (s\<lparr>error := e\<rparr>) d = readyState s d"
  by (simp_all add: readyState_def)

lemma trace_emit [simp]: "trace (emit e s) = trace s @ [e]"
  by (simp add: emit_def)

lemma emit_fields [simp]:
  "dataChannelRef (emit e s) = dataChannelRef s"
  "readyState (emit e s) d = readyState s d"
  "status (emit e s) = status s"
  by (simp_all add: emit_def readyState_def)

lemma emit_nav [simp]: "navigationCallbacksRef (emit e s) = navigationCallbacksRef s"
  by (simp add: emit_def)

lemma added_append [simp]: "trace s' = trace s @ es \<Longrightarrow> added s s' = es"
  by (simp add: added_def)

lemma added_same [simp]: "added s s = []"
  by (simp add: added_def)

lemma quote_success: \<open>quoteJSON ''success'' = ''"success"''\<close>
  by (simp add: quoteJSON_def escape_char_def)
lemma quote_action: \<open>quoteJSON ''action'' = ''"action"''\<close>
  by (simp add: quoteJSON_def escape_char_def)
lemma quote_error: \<open>quoteJSON ''error'' = ''"error"''\<close>
  by (simp add: quoteJSON_def escape_char_def)
lemma quote_next: \<open>quoteJSON ''navigated_next'' = ''"navigated_next"''\<close>
  by (simp add: quoteJSON_def escape_char_def)
lemma quote_previous: \<open>quoteJSON ''navigated_previous'' = ''"navigated_previous"''\<close>
  by (simp add: quoteJSON_def escape_char_def)
lemma quote_unavailable: \<open>quoteJSON ''Navigation not available'' = ''"Navigation not available"''\<close>
  by (simp add: quoteJSON_def escape_char_def)

lemmas quotes = quote_success quote_action quote_error quote_next quote_previous quote_unavailable

lemma sendEvent_open:
  "dataChannelRef s = Some d \<Longrightarrow> readyState s d = Some RsOpen \<Longrightarrow> sendEvent ev s = emit (Send d ev) s"
  by (simp add: sendEvent_def)

lemma sends_append [simp]: "sends (xs @ ys) = sends xs @ sends ys"
  by (induction xs rule: sends.induct) simp_all

lemma sends_map_NavCall [simp]: "sends (map NavCall cs) = []"
  by (induction cs) simp_all

lemma navCalls_append [simp]: "navCalls (xs @ ys) = navCalls xs @ navCalls ys"
  by (induction xs rule: navCalls.induct) simp_all

lemma navCalls_map_NavCall [simp]: "navCalls (map NavCall cs) = cs"
  by (induction cs) simp_all

lemma stateOf_simps [simp]: "stateOf (Returned s) = s" "stateOf (Thrown s) = s"
  by (simp_all add: stateOf_def)

lemma handleFunctionCall_returns:
  assumes "dataChannelRef s = Some d" "readyState s d = Some RsOpen" "callbackReturns s name"
  shows "handleFunctionCall name callId args s =
           Returned (s\<lparr>trace := trace s @ [Console LogLevel ''Function call:''] @
                map NavCall (navFor (navigationCallbacksRef s \<noteq> None) name) @
                [Send d (ConversationItemCreate
                   (FunctionCallOutput callId (resultFor (navigationCallbacksRef s \<noteq> None) name))),
                 Send d ResponseCreate]\<rparr>)"
proof (cases "navigationCallbacksRef s")
  case None
  with assms(1,2) show ?thesis
    apply (simp add: handleFunctionCall_def Let_def sendEvent_open resultFor_def navFor_def
      GO_TO_NEXT_SLIDE_def GO_TO_PREVIOUS_SLIDE_def JSON_stringify_def quotes)
    apply (simp add: emit_def)
    done
next
  case (Some callbacks)
  from assms(3) Some have c:
    "name = ''goToNextSlide'' \<Longrightarrow> callbacks (navCalls (trace s)) GoToNext"
    "name \<noteq> ''goToNextSlide'' \<Longrightarrow> name = ''goToPreviousSlide'' \<Longrightarrow>
       callbacks (navCalls (trace s)) GoToPrevious"
    by (simp_all add: callbackReturns_def)
  from assms(1,2) Some c show ?thesis
    apply (simp add: handleFunctionCall_def Let_def invoke_def sendEvent_open resultFor_def navFor_def
      GO_TO_NEXT_SLIDE_def GO_TO_PREVIOUS_SLIDE_def JSON_stringify_def quotes)
    apply (simp add: emit_def)
    done
qed

lemma handleFunctionCall_throws:
  assumes "\<not> callbackReturns s name"
  shows "handleFunctionCall name callId args s =
           Thrown (s\<lparr>trace := trace s @ [Console LogLevel ''Function call:''] @
                map NavCall (navFor True name)\<rparr>)"
proof (cases "navigationCallbacksRef s")
  case None
  with assms show ?thesis by (simp add: callbackReturns_def)
next
  case (Some callbacks)
  from assms Some have c:
    "name = ''goToNextSlide'' \<or> name = ''goToPreviousSlide''"
    "name = ''goToNextSlide'' \<Longrightarrow> \<not> callbacks (navCalls (trace s)) GoToNext"
    "name \<noteq> ''goToNextSlide'' \<Longrightarrow> \<not> callbacks (navCalls (trace s)) GoToPrevious"
    by (simp_all add: callbackReturns_def split: if_splits)
  from Some c show ?thesis
    apply (simp add: handleFunctionCall_def Let_def invoke_def navFor_def
      GO_TO_NEXT_SLIDE_def GO_TO_PREVIOUS_SLIDE_def)
    apply (auto simp add: emit_def)
    done
qed

subsection \<open>The result of one dispatch\<close>

text \<open>
  C5 (as amended). While the data channel the handle holds is open: a dispatch whose
  navigation callback, if it calls one, returns, returns itself and sends exactly one
  function-call-output item with the originating call id, followed by one
  \<^verbatim>\<open>response.create\<close>. The payload is \<open>resultFor\<close>: success for the two known names when
  the navigation callbacks are registered (and then the matching callback is invoked exactly
  once), \<^verbatim>\<open>{"success":false,"error":"Navigation not available"}\<close> when they are not, and
  \<^verbatim>\<open>{"error":"Unknown function: ..."}\<close> for any other name. A dispatch whose callback throws
  is left by that exception, after the one call of the callback, and sends nothing.
\<close>

theorem dispatch_result:
  assumes "dataChannelRef s = Some d" and "readyState s d = Some RsOpen"
  shows "(callbackReturns s name \<longrightarrow>
            isReturned (handleFunctionCall name callId args s)
          \<and> sends (added s (stateOf (handleFunctionCall name callId args s))) =
              [ConversationItemCreate
                 (FunctionCallOutput callId (resultFor (navigationCallbacksRef s \<noteq> None) name)),
               ResponseCreate]
          \<and> navCalls (added s (stateOf (handleFunctionCall name callId args s))) =
              navFor (navigationCallbacksRef s \<noteq> None) name)
       \<and> (\<not> callbackReturns s name \<longrightarrow>
            \<not> isReturned (handleFunctionCall name callId args s)
          \<and> sends (added s (stateOf (handleFunctionCall name callId args s))) = []
          \<and> navCalls (added s (stateOf (handleFunctionCall name callId args s))) = navFor True name)"
proof (cases "callbackReturns s name")
  case True
  then show ?thesis
    by (simp add: handleFunctionCall_returns [OF assms True])
next
  case False
  then show ?thesis
    by (simp add: handleFunctionCall_throws [OF False])
qed

text \<open>
  C5, at the scenario of the specification (callbacks registered, the advance tool, call id
  c1), and at a call of the retreat tool whose callback throws.
\<close>

theorem dispatch_result_witness:
  \<open>dataChannelRef established = Some 0 \<and> readyState established 0 = Some RsOpen \<and>
   callbackReturns established ''goToNextSlide'' \<and>
   isReturned (handleFunctionCall ''goToNextSlide'' ''c1'' None established) \<and>
   sends (added established (stateOf (handleFunctionCall ''goToNextSlide'' ''c1'' None established))) =
     [ConversationItemCreate (FunctionCallOutput ''c1'' ''{"success":true,"action":"navigated_next"}''),
      ResponseCreate] \<and>
   navCalls (added established (stateOf (handleFunctionCall ''goToNextSlide'' ''c1'' None established))) =
     [GoToNext] \<and>
   dataChannelRef unreliable = Some 0 \<and> readyState unreliable 0 = Some RsOpen \<and>
   \<not> callbackReturns unreliable ''goToPreviousSlide'' \<and>
   \<not> isReturned (handleFunctionCall ''goToPreviousSlide'' ''c2'' None unreliable) \<and>
   sends (added unreliable (stateOf (handleFunctionCall ''goToPreviousSlide'' ''c2'' None unreliable))) = [] \<and>
   navCalls (added unreliable (stateOf (handleFunctionCall ''goToPreviousSlide'' ''c2'' None unreliable))) =
     [GoToPrevious]\<close>
proof -
  have r: "callbackReturns established ''goToNextSlide''"
    by (simp add: callbackReturns_def established_open reliable_def)
  have t: "\<not> callbackReturns unreliable ''goToPreviousSlide''"
    by (simp add: callbackReturns_def unreliable_open failing_def)
  show ?thesis
    using dispatch_result [OF established_open(2,3), of "''goToNextSlide''" "''c1''" None]
      dispatch_result [OF unreliable_open(2,3), of "''goToPreviousSlide''" "''c2''" None] r t
    by (simp add: established_open unreliable_open resultFor_def navFor_def)
qed

text \<open>
  C5 as stated fails twice: without registered callbacks the payload is not
  \<^verbatim>\<open>{"success":false,"error":"navigation unavailable"}\<close>; and with a registered callback
  that throws, the dispatch throws and sends no function-call-output item.
\<close>

theorem navigation_unavailable_counterexample:
  \<open>\<not> sends (added unregistered (stateOf (handleFunctionCall ''goToNextSlide'' ''c1'' None unregistered))) =
       [ConversationItemCreate
          (FunctionCallOutput ''c1'' ''{"success":false,"error":"navigation unavailable"}''),
        ResponseCreate]
   \<and> \<not> isReturned (handleFunctionCall ''goToNextSlide'' ''c1'' None unreliable)
   \<and> sends (added unreliable (stateOf (handleFunctionCall ''goToNextSlide'' ''c1'' None unreliable))) = []\<close>
proof -
  have r: "callbackReturns unregistered ''goToNextSlide''"
    by (simp add: callbackReturns_def unregistered_open)
  have t: "\<not> callbackReturns unreliable ''goToNextSlide''"
    by (simp add: callbackReturns_def unreliable_open failing_def)
  show ?thesis
    by (simp add: handleFunctionCall_returns [OF unregistered_open(2,3) r]
        handleFunctionCall_throws [OF t] unregistered_open resultFor_def)
qed

subsection \<open>Replies to a finished response\<close>

lemma twoCalls_at_established:
  \<open>handleServerEvent (ResponseDone twoCalls) established =
     Returned (established\<lparr>trace := trace established @
       [Console LogLevel ''Function call:'', NavCall GoToNext,
        Send 0 (ConversationItemCreate (FunctionCallOutput ''c1'' ''{"success":true,"action":"navigated_next"}'')),
        Send 0 ResponseCreate,
        Console LogLevel ''Function call:'', NavCall GoToNext,
        Send 0 (ConversationItemCreate (FunctionCallOutput ''c2'' ''{"success":true,"action":"navigated_next"}'')),
        Send 0 ResponseCreate]\<rparr>)\<close>
proof -
  define s1 where \<open>s1 = established\<lparr>trace := trace established @
       [Console LogLevel ''Function call:'', NavCall GoToNext,
        Send 0 (ConversationItemCreate (FunctionCallOutput ''c1'' ''{"success":true,"action":"navigated_next"}'')),
        Send 0 ResponseCreate]\<rparr>\<close>
  define s2 where \<open>s2 = s1\<lparr>trace := trace s1 @
       [Console LogLevel ''Function call:'', NavCall GoToNext,
        Send 0 (ConversationItemCreate (FunctionCallOutput ''c2'' ''{"success":true,"action":"navigated_next"}'')),
        Send 0 ResponseCreate]\<rparr>\<close>
  have e0: "setIsAgentSpeaking False established = established"
    by (simp add: setIsAgentSpeaking_def established_eq)
  have r0: "callbackReturns established ''goToNextSlide''"
    by (simp add: callbackReturns_def established_open reliable_def)
  have h1: "handleFunctionCall ''goToNextSlide'' ''c1'' None established = Returned s1"
    by (simp add: handleFunctionCall_returns [OF established_open(2,3) r0] s1_def
        established_open resultFor_def navFor_def)
  have o1: "dataChannelRef s1 = Some 0" "readyState s1 0 = Some RsOpen"
    "navigationCallbacksRef s1 = Some reliable"
    by (simp_all add: s1_def established_open)
  have r1: "callbackReturns s1 ''goToNextSlide''"
    by (simp add: callbackReturns_def o1 reliable_def)
  have h2: "handleFunctionCall ''goToNextSlide'' ''c2'' None s1 = Returned s2"
    by (simp add: handleFunctionCall_returns [OF o1(1,2) r1] s2_def o1 resultFor_def navFor_def)
  have "handleServerEvent (ResponseDone twoCalls) established = Returned s2"
    by (simp only: handleServerEvent_def ServerEvent.case e0 twoCalls_def forEachOutputItem.simps
        OutputItem.case h1 outcome.case h2)
  then show ?thesis
    by (simp add: s2_def s1_def)
qed

text \<open>
  C1, at its failing input: a response with two function-call items. Each call is answered
  with its function-call-output item and its own \<^verbatim>\<open>response.create\<close>, so the batch gets two
  continuation triggers, the second sent while the response asked for by the first is open.
\<close>

theorem two_triggers_for_one_batch:
  \<open>sends (added established
      (step (Signal (ChannelMessage 0 (Some (ResponseDone twoCalls)))) established)) =
     [ConversationItemCreate (FunctionCallOutput ''c1'' ''{"success":true,"action":"navigated_next"}''),
      ResponseCreate,
      ConversationItemCreate (FunctionCallOutput ''c2'' ''{"success":true,"action":"navigated_next"}''),
      ResponseCreate]
   \<and> length (filter (\<lambda>e. e = ResponseCreate)
        (sends (added established
           (step (Signal (ChannelMessage 0 (Some (ResponseDone twoCalls)))) established)))) = 2\<close>
  by (simp add: onMessage_def established_open twoCalls_at_established)

subsection \<open>Dispatch happens at response.done only\<close>

lemma navCalls_TrackStop [simp]: "navCalls (map (TrackStop m) xs) = []"
  by (induction xs) simp_all

lemma navCalls_sendEvent [simp]: "navCalls (trace (sendEvent ev s)) = navCalls (trace s)"
  by (simp add: sendEvent_def split: option.splits)

lemma navCalls_setStatus [simp]: "navCalls (trace (setStatus st s)) = navCalls (trace s)"
  by (simp add: setStatus_def)

lemma navCalls_setError [simp]: "navCalls (trace (setError e s)) = navCalls (trace s)"
  by (simp add: setError_def)

lemma navCalls_setIsAgentSpeaking [simp]: "navCalls (trace (setIsAgentSpeaking b s)) = navCalls (trace s)"
  by (simp add: setIsAgentSpeaking_def)

lemma navCalls_cleanup [simp]: "navCalls (trace (cleanup s)) = navCalls (trace s)"
  by (simp add: cleanup_def Let_def closeDataChannel_def stopTracks_def closePeerConnection_def
      detachSink_def emit_def split: option.splits)

lemma navCalls_connectCatch [simp]: "navCalls (trace (connectCatch thrown s)) = navCalls (trace s)"
  by (simp add: connectCatch_def)

lemma navCalls_resume [simp]: "navCalls (trace (snd (resume st a s))) = navCalls (trace s)"
  by (cases st; cases a)
     (simp_all add: resume_def Let_def createPeerConnection_def storeStream_def createDataChannel_def)

lemma navCalls_resumeAt [simp]: "navCalls (trace (resumeAt k a s)) = navCalls (trace s)"
proof (cases "k < length (pending s)")
  case True
  obtain n s1 where r: "resume (pending s ! k) a s = (n, s1)" by force
  have "navCalls (trace s1) = navCalls (trace s)"
    using navCalls_resume [of "pending s ! k" a s] by (simp add: r)
  then show ?thesis using True by (simp add: resumeAt_def r split: option.splits)
next
  case False
  then show ?thesis by (simp add: resumeAt_def)
qed

lemma item_done_ignored: "handleServerEvent (ResponseOutputItemDone item) s = Returned s"
  by (simp add: handleServerEvent_def)

lemma step_item_done: "isItemDone e \<Longrightarrow> step e s = s"
  by (induction e rule: isItemDone.induct) (simp_all add: onMessage_def item_done_ignored)

lemma navCalls_handleServerEvent:
  "\<not> isResponseDone (Signal (ChannelMessage d (Some ev))) \<Longrightarrow>
     isReturned (handleServerEvent ev s) \<and>
     navCalls (trace (stateOf (handleServerEvent ev s))) = navCalls (trace s)"
  by (cases ev) (simp_all add: handleServerEvent_def)

lemma navCalls_onMessage:
  "navCalls (trace (onMessage d (Some ev) s)) =
     (if readyState s d = Some RsOpen then navCalls (trace (stateOf (handleServerEvent ev s)))
      else navCalls (trace s))"
  by (cases "handleServerEvent ev s") (simp_all add: onMessage_def)

lemma navCalls_deliver:
  "\<not> isResponseDone (Signal g) \<Longrightarrow> navCalls (trace (deliver g s)) = navCalls (trace s)"
proof (cases g)
  case (ChannelMessage d m)
  assume n: "\<not> isResponseDone (Signal g)"
  show ?thesis
  proof (cases m)
    case None
    then show ?thesis by (simp add: ChannelMessage onMessage_def)
  next
    case (Some ev)
    with n ChannelMessage show ?thesis
      by (simp add: navCalls_onMessage navCalls_handleServerEvent)
  qed
qed (simp_all add: onOpen_def onClose_def onTrack_def)

lemma navCalls_step:
  "\<not> isResponseDone e \<Longrightarrow> navCalls (trace (step e s)) = navCalls (trace s)"
  by (cases e)
     (simp_all add: connect_def connectFrom_def Let_def disconnect_def sendTextMessage_def sendHint_def
        updateInstructions_def setNavigationCallbacks_def navCalls_deliver)

lemma run_append: "run (xs @ ys) s = run ys (run xs s)"
  by (induction xs arbitrary: s) simp_all

lemma run_without_item_done: "run evs s = run (filter (\<lambda>e. \<not> isItemDone e) evs) s"
  by (induction evs arbitrary: s) (simp_all add: step_item_done)

text \<open>
  C2. A \<^verbatim>\<open>response.output_item.done\<close> event leaves the state as it is, so a run of events
  is the run without these events; and whenever a step invokes a navigation callback, the
  step is the processing of a \<^verbatim>\<open>response.done\<close> message.
\<close>

theorem dispatch_only_on_response_done:
  "handleServerEvent (ResponseOutputItemDone item) s = Returned s
   \<and> run evs s = run (filter (\<lambda>e. \<not> isItemDone e) evs) s
   \<and> (navCalls (trace (step e s)) \<noteq> navCalls (trace s) \<longrightarrow> isResponseDone e)"
  using item_done_ignored run_without_item_done navCalls_step by blast

text \<open>
  C2, at a response that calls the advance tool.
\<close>

theorem dispatch_only_on_response_done_witness:
  "navCalls (trace (step (Signal (ChannelMessage 0
       (Some (ResponseDone [FunctionCallItem ''goToNextSlide'' ''c1'' None])))) established))
     \<noteq> navCalls (trace established)
   \<and> isResponseDone (Signal (ChannelMessage 0
       (Some (ResponseDone [FunctionCallItem ''goToNextSlide'' ''c1'' None]))))
   \<and> run [Signal (ChannelMessage 0 (Some (ResponseOutputItemDone
              (FunctionCallItem ''goToNextSlide'' ''c1'' None))))] established = established"
proof -
  have r0: "callbackReturns established ''goToNextSlide''"
    by (simp add: callbackReturns_def established_open reliable_def)
  have e0: "setIsAgentSpeaking False established = established"
    by (simp add: setIsAgentSpeaking_def established_eq)
  show ?thesis
    using dispatch_only_on_response_done [of "FunctionCallItem ''goToNextSlide'' ''c1'' None"
      established
      "[Signal (ChannelMessage 0 (Some (ResponseOutputItemDone
              (FunctionCallItem ''goToNextSlide'' ''c1'' None))))]"
      "Signal (ChannelMessage 0
       (Some (ResponseDone [FunctionCallItem ''goToNextSlide'' ''c1'' None])))"]
    by (simp add: onMessage_def established_open handleServerEvent_def e0
        handleFunctionCall_returns [OF established_open(2,3) r0] navFor_def)
qed

subsection \<open>Sending while not connected\<close>

text \<open>
  C7. While \<^verbatim>\<open>status\<close> is not connected, \<^verbatim>\<open>sendHint\<close> changes nothing, and
  \<^verbatim>\<open>sendTextMessage\<close> only logs a warning: nothing is written to a channel. The wrapped
  functions of the coordinator change nothing.
\<close>

theorem not_connected_noop:
  assumes "status s \<noteq> Connected" and "status (conn c) \<noteq> Connected"
  shows "sendHint message s = s
       \<and> sendTextMessage text s = emit (Console WarnLevel ''Not connected'') s
       \<and> sends (trace (sendTextMessage text s)) = sends (trace s)
       \<and> channels (sendTextMessage text s) = channels s
       \<and> contextSendHint message c = c
       \<and> contextSendTextMessage text c = c"
  using assms
  by (simp add: sendHint_def sendTextMessage_def contextSendHint_def contextSendTextMessage_def emit_def)

text \<open>
  C7, at a freshly mounted hook and provider.
\<close>

theorem not_connected_noop_witness:
  "status initial \<noteq> Connected \<and> status (conn mounted) \<noteq> Connected
   \<and> sendHint ''clicked'' initial = initial
   \<and> sends (trace (sendTextMessage ''hello'' initial)) = []
   \<and> contextSendHint ''clicked'' mounted = mounted
   \<and> contextSendTextMessage ''hello'' mounted = mounted"
  using not_connected_noop [of initial mounted "''clicked''" "''hello''"]
  by (simp add: initial_def mounted_def)

subsection \<open>Hints and text messages\<close>

text \<open>
  C8. While connected, with the data channel open, a hint is sent as exactly one
  \<^verbatim>\<open>conversation.item.create\<close> with a user-role message whose text is the hint prefixed
  with \<^verbatim>\<open>[Context Update] \<close>, and \<^verbatim>\<open>sendTextMessage\<close> sends the message followed by
  \<^verbatim>\<open>response.create\<close>. In no state does \<^verbatim>\<open>sendHint\<close> send a \<^verbatim>\<open>response.create\<close>.
\<close>

theorem hint_is_context_only:
  "(status s = Connected \<and> dataChannelRef s = Some d \<and> readyState s d = Some RsOpen \<longrightarrow>
      added s (sendHint message s) =
        [Send d (ConversationItemCreate (Message User [InputText (''[Context Update] '' @ message)]))]
    \<and> added s (sendTextMessage text s) =
        [Send d (ConversationItemCreate (Message User [InputText text])), Send d ResponseCreate])
   \<and> ResponseCreate \<notin> set (sends (added t (sendHint message t)))"
proof -
  have "ResponseCreate \<notin> set (sends (added t (sendHint message t)))"
    by (simp add: sendHint_def sendEvent_def split: option.splits)
  then show ?thesis
    by (simp add: sendHint_def sendTextMessage_def sendEvent_open)
qed

text \<open>
  C8, at the established connection.
\<close>

theorem hint_is_context_only_witness:
  "status established = Connected \<and> dataChannelRef established = Some 0
   \<and> readyState established 0 = Some RsOpen
   \<and> added established (sendHint ''User clicked Process'' established) =
        [Send 0 (ConversationItemCreate
           (Message User [InputText ''[Context Update] User clicked Process'']))]
   \<and> added established (sendTextMessage ''hello'' established) =
        [Send 0 (ConversationItemCreate (Message User [InputText ''hello''])), Send 0 ResponseCreate]"
  using hint_is_context_only [of established 0 "''User clicked Process''" "''hello''"]
  by (simp add: established_open)

lemmas script_defs = negotiatedWithoutSlide_def negotiatedOnSlide_def crun.simps handler.simps deliver.simps
  sessionScript_def mounted_def initial_def startSession_def
  buildCurrentInstructions_def setSlideOverview_def setCurrentSlide_def
  setNavigationCallbacks_def connect_def connectFrom_def
  setStatus_def setError_def emit_def resumeAt_def resume_def Let_def createPeerConnection_def
  storeStream_def peerOpen_def createDataChannel_def CONNECT_TIMEOUT_MS_def onOpen_def readyState_def
  cstep_def greetingEffect_def plainBuilder_def slide1_def

lemma openingWithoutSlide_eq:
  "openingWithoutSlide =
     \<lparr>currentSlideRef = None, slideOverviewRef = [], modeRef = DialogueMode,
        personaRef = Guide, hasGreetedRef = False,
        conn = established\<lparr>navigationCallbacksRef := None,
           trace := [SetStatus Connecting, SetError None,
            TokenRequest ''You are a helpful presentation assistant. Wait for the presentation to load.'' Sage,
            SdpRequest, SetTimeout 10000, ClearTimeout,
            Console LogLevel ''WebRTC connection established'',
            Console LogLevel ''Data channel opened'', SetStatus Connected]\<rparr>\<rparr>"
  by (simp add: established_eq) (simp add: openingWithoutSlide_def script_defs)

lemma openingOnSlide_eq:
  "openingOnSlide =
     \<lparr>currentSlideRef = Some slide1,
        slideOverviewRef = [(''intro'', ''Introduction''), (''method'', ''Method''), (''end'', ''End'')],
        modeRef = DialogueMode, personaRef = Guide, hasGreetedRef = False,
        conn = established\<lparr>navigationCallbacksRef := None,
           trace := [SetStatus Connecting, SetError None,
            TokenRequest ''Slide: Introduction'' Sage,
            SdpRequest, SetTimeout 10000, ClearTimeout,
            Console LogLevel ''WebRTC connection established'',
            Console LogLevel ''Data channel opened'', SetStatus Connected]\<rparr>\<rparr>"
  by (simp add: established_eq) (simp add: openingOnSlide_def script_defs)

lemma presenting_eq:
  "presenting = openingOnSlide\<lparr>hasGreetedRef := True,
      conn := (conn openingOnSlide)\<lparr>trace := trace (conn openingOnSlide) @
         [Send 0 (ConversationItemCreate (Message User
             [InputText (greetingPrompt slide1 DialogueMode Guide)])),
          Send 0 ResponseCreate]\<rparr>\<rparr>"
proof -
  have n: "status (conn negotiatedOnSlide) = Connecting"
    by (simp add: script_defs)
  have h: "handler plainBuilder (Browser (ChannelOpened 0)) negotiatedOnSlide = openingOnSlide"
    by (simp only: openingOnSlide_def)
  have o: "status (conn openingOnSlide) = Connected"
    by (simp add: openingOnSlide_eq established_eq)
  have "presenting = greetingEffect openingOnSlide"
    unfolding presenting_def cstep_def h Let_def using n o by simp
  then show ?thesis
    by (simp add: greetingEffect_def openingOnSlide_eq established_eq
      sendTextMessage_def sendEvent_def readyState_def emit_def)
qed

lemma presenting_fields:
  "status (conn presenting) = Connected" "dataChannelRef (conn presenting) = Some 0"
  "readyState (conn presenting) 0 = Some RsOpen" "currentSlideRef presenting = Some slide1"
  "modeRef presenting = DialogueMode"
  by (simp_all add: presenting_eq openingOnSlide_eq established_eq readyState_def)

subsection \<open>setCurrentSlide while connected\<close>

lemma setCurrentSlide_connected:
  assumes "status (conn c) = Connected" "dataChannelRef (conn c) = Some d"
      "readyState (conn c) d = Some RsOpen"
  shows "setCurrentSlide b metadata c =
     c\<lparr>currentSlideRef := Some metadata,
       conn := (conn c)\<lparr>trace := trace (conn c) @
          Send d (SessionUpdate (buildCurrentInstructions b (c\<lparr>currentSlideRef := Some metadata\<rparr>))) #
          (case currentSlideRef c of
             Some previous \<Rightarrow>
               if slideNumber previous \<noteq> slideNumber metadata
               then [Send d (ConversationItemCreate (Message User
                       [InputText (''[Context Update] '' @ slideChangeHint metadata (modeRef c))]))]
               else []
           | None \<Rightarrow> [])\<rparr>\<rparr>"
  using assms
  by (simp add: setCurrentSlide_def Let_def updateInstructions_def sendHint_def sendEvent_open
      emit_def split: option.splits)

text \<open>
  C3 (as amended). While connected, with the data channel open, \<^verbatim>\<open>setCurrentSlide\<close> with a
  slide whose slide number differs from that of the slide held before sends exactly one
  session update and exactly one hint, in the wording of the current mode; called again with
  the identical slide it sends the session update again, and no hint.
\<close>

theorem slide_change_updates:
  assumes "status (conn c) = Connected" and "dataChannelRef (conn c) = Some d"
    and "readyState (conn c) d = Some RsOpen" and "currentSlideRef c = Some previous"
    and "slideNumber previous \<noteq> slideNumber metadata"
  shows "added (conn c) (conn (setCurrentSlide b metadata c)) =
           [Send d (SessionUpdate (buildCurrentInstructions b (c\<lparr>currentSlideRef := Some metadata\<rparr>))),
            Send d (ConversationItemCreate (Message User
               [InputText (''[Context Update] '' @ slideChangeHint metadata (modeRef c))]))]
       \<and> added (conn (setCurrentSlide b metadata c))
               (conn (setCurrentSlide b metadata (setCurrentSlide b metadata c))) =
           [Send d (SessionUpdate (buildCurrentInstructions b (c\<lparr>currentSlideRef := Some metadata\<rparr>)))]"
proof -
  let ?c1 = "setCurrentSlide b metadata c"
  note first = setCurrentSlide_connected [OF assms(1-3), of b metadata]
  have c1: "status (conn ?c1) = Connected" "dataChannelRef (conn ?c1) = Some d"
    "readyState (conn ?c1) d = Some RsOpen" "currentSlideRef ?c1 = Some metadata"
    using assms(1-3) by (simp_all add: first)
  have same: "buildCurrentInstructions b (?c1\<lparr>currentSlideRef := Some metadata\<rparr>) =
      buildCurrentInstructions b (c\<lparr>currentSlideRef := Some metadata\<rparr>)"
    by (simp add: first buildCurrentInstructions_def)
  have "added (conn c) (conn ?c1) =
           [Send d (SessionUpdate (buildCurrentInstructions b (c\<lparr>currentSlideRef := Some metadata\<rparr>))),
            Send d (ConversationItemCreate (Message User
               [InputText (''[Context Update] '' @ slideChangeHint metadata (modeRef c))]))]"
    using assms(4,5) by (simp add: first)
  moreover have "added (conn ?c1) (conn (setCurrentSlide b metadata ?c1)) =
           [Send d (SessionUpdate (buildCurrentInstructions b (c\<lparr>currentSlideRef := Some metadata\<rparr>)))]"
    using same by (simp add: setCurrentSlide_connected [OF c1(1-3), of b metadata] c1(4))
  ultimately show ?thesis by simp
qed

text \<open>
  C3, moving from the first slide to the second and repeating the call.
\<close>

theorem slide_change_updates_witness:
  "status (conn presenting) = Connected \<and> dataChannelRef (conn presenting) = Some 0
   \<and> readyState (conn presenting) 0 = Some RsOpen \<and> currentSlideRef presenting = Some slide1
   \<and> slideNumber slide1 \<noteq> slideNumber slide2
   \<and> sends (added (conn presenting) (conn (setCurrentSlide plainBuilder slide2 presenting))) =
        [SessionUpdate ''Slide: Method'',
         ConversationItemCreate (Message User
           [InputText (''[Context Update] '' @ slideChangeHint slide2 DialogueMode)])]
   \<and> sends (added (conn (setCurrentSlide plainBuilder slide2 presenting))
              (conn (setCurrentSlide plainBuilder slide2 (setCurrentSlide plainBuilder slide2 presenting)))) =
        [SessionUpdate ''Slide: Method'']"
proof -
  have n: "slideNumber slide1 \<noteq> slideNumber slide2"
    by (simp add: slide1_def slide2_def)
  show ?thesis
    using slide_change_updates [OF presenting_fields(1-4) n, of plainBuilder] n
    by (simp add: presenting_fields)
       (simp add: buildCurrentInstructions_def presenting_eq openingOnSlide_eq plainBuilder_def slide2_def)
qed

text \<open>
  C3 as stated fails twice: called again with the identical slide, \<^verbatim>\<open>setCurrentSlide\<close> still
  sends a session update; and a slide that differs in id and title but not in slide number
  gets no hint.
\<close>

theorem identical_slide_counterexample:
  "\<not> sends (added (conn (setCurrentSlide plainBuilder slide2 presenting))
              (conn (setCurrentSlide plainBuilder slide2 (setCurrentSlide plainBuilder slide2 presenting)))) = []
   \<and> slide2b \<noteq> slide2
   \<and> sends (added (conn (setCurrentSlide plainBuilder slide2 presenting))
              (conn (setCurrentSlide plainBuilder slide2b (setCurrentSlide plainBuilder slide2 presenting)))) =
       [SessionUpdate ''Slide: Method, continued'']"
proof -
  let ?c1 = "setCurrentSlide plainBuilder slide2 presenting"
  note first = setCurrentSlide_connected [OF presenting_fields(1-3), of plainBuilder slide2]
  have c1: "status (conn ?c1) = Connected" "dataChannelRef (conn ?c1) = Some 0"
    "readyState (conn ?c1) 0 = Some RsOpen"
    using presenting_fields(1-3) by (simp_all add: first)
  have c2: "currentSlideRef ?c1 = Some slide2" "slideOverviewRef ?c1 \<noteq> []"
    by (simp_all add: first) (simp_all add: presenting_eq openingOnSlide_eq)
  have d: "slide2b \<noteq> slide2" "slideNumber slide2b = slideNumber slide2" "title slide2b = ''Method, continued''"
    by (simp_all add: slide2_def slide2b_def)
  show ?thesis
    using d c2
    by (simp add: setCurrentSlide_connected [OF c1, of plainBuilder] buildCurrentInstructions_def
        plainBuilder_def split: list.splits)
qed

subsection \<open>Cleanup\<close>

lemma openChannels_iff: "d \<in> set (openChannels s) \<longleftrightarrow> channelLive s d"
  by (auto simp add: openChannels_def channelLive_def)

lemma openPeers_iff: "p \<in> set (openPeers s) \<longleftrightarrow> peerOpen s p"
  by (auto simp add: openPeers_def peerOpen_def)

lemma attachedSinks_iff: "a \<in> set (attachedSinks s) \<longleftrightarrow> sinkAttached s a"
  by (auto simp add: attachedSinks_def sinkAttached_def)

lemma liveTracks_zero: "liveTracks s = 0 \<longleftrightarrow> (\<forall>m. \<not> streamLive s m)"
proof -
  have "liveTracks s = 0 \<longleftrightarrow> (\<forall>xs \<in> set (streams s). True \<notin> set xs)"
    by (auto simp add: liveTracks_def filter_empty_conv)
  also have "\<dots> \<longleftrightarrow> (\<forall>m < length (streams s). True \<notin> set (streams s ! m))"
    by (metis in_set_conv_nth)
  also have "\<dots> \<longleftrightarrow> (\<forall>m. \<not> streamLive s m)"
    by (simp add: streamLive_def)
  finally show ?thesis .
qed

lemma empty_iff_no_member: "xs = [] \<longleftrightarrow> (\<forall>x. x \<notin> set xs)"
  by (cases xs) auto

lemma closeDataChannel_fields [simp]:
  "status (closeDataChannel d s) = status s" "error (closeDataChannel d s) = error s"
  "pending (closeDataChannel d s) = pending s"
  "dataChannelRef (closeDataChannel d s) = dataChannelRef s"
  "localStreamRef (closeDataChannel d s) = localStreamRef s"
  "peerConnectionRef (closeDataChannel d s) = peerConnectionRef s"
  "audioElementRef (closeDataChannel d s) = audioElementRef s"
  "streams (closeDataChannel d s) = streams s" "peers (closeDataChannel d s) = peers s"
  "audios (closeDataChannel d s) = audios s"
  "trace (closeDataChannel d s) = trace s @ [ChannelClose d]"
  "channels (closeDataChannel d s) =
     (if channelLive s d then (channels s)[d := RsClosing] else channels s)"
  by (auto simp add: closeDataChannel_def emit_def channelLive_def)

lemma stopTracks_fields [simp]:
  "status (stopTracks m s) = status s" "error (stopTracks m s) = error s"
  "pending (stopTracks m s) = pending s"
  "dataChannelRef (stopTracks m s) = dataChannelRef s"
  "localStreamRef (stopTracks m s) = localStreamRef s"
  "peerConnectionRef (stopTracks m s) = peerConnectionRef s"
  "audioElementRef (stopTracks m s) = audioElementRef s"
  "channels (stopTracks m s) = channels s" "peers (stopTracks m s) = peers s"
  "audios (stopTracks m s) = audios s"
  "trace (stopTracks m s) = trace s @
     (if m < length (streams s) then map (TrackStop m) [0..<length (streams s ! m)] else [])"
  "streams (stopTracks m s) =
     (if m < length (streams s) then (streams s)[m := map (\<lambda>live. False) (streams s ! m)]
      else streams s)"
  by (simp_all add: stopTracks_def)

lemma closePeerConnection_fields [simp]:
  "status (closePeerConnection p s) = status s" "error (closePeerConnection p s) = error s"
  "pending (closePeerConnection p s) = pending s"
  "dataChannelRef (closePeerConnection p s) = dataChannelRef s"
  "localStreamRef (closePeerConnection p s) = localStreamRef s"
  "peerConnectionRef (closePeerConnection p s) = peerConnectionRef s"
  "audioElementRef (closePeerConnection p s) = audioElementRef s"
  "channels (closePeerConnection p s) = channels s" "streams (closePeerConnection p s) = streams s"
  "audios (closePeerConnection p s) = audios s"
  "trace (closePeerConnection p s) = trace s @ [PeerClose p]"
  "peers (closePeerConnection p s) =
     (if p < length (peers s) then (peers s)[p := (False, snd (peers s ! p))] else peers s)"
  by (simp_all add: closePeerConnection_def emit_def)

lemma detachSink_fields [simp]:
  "status (detachSink a s) = status s" "error (detachSink a s) = error s"
  "pending (detachSink a s) = pending s"
  "dataChannelRef (detachSink a s) = dataChannelRef s"
  "localStreamRef (detachSink a s) = localStreamRef s"
  "peerConnectionRef (detachSink a s) = peerConnectionRef s"
  "audioElementRef (detachSink a s) = audioElementRef s"
  "channels (detachSink a s) = channels s" "streams (detachSink a s) = streams s"
  "peers (detachSink a s) = peers s"
  "trace (detachSink a s) = trace s @ [SinkDetach a]"
  "audios (detachSink a s) = (if a < length (audios s) then (audios s)[a := False] else audios s)"
  by (simp_all add: detachSink_def emit_def)

lemma cleanup_fields [simp]:
  "status (cleanup s) = status s" "error (cleanup s) = error s" "pending (cleanup s) = pending s"
  "dataChannelRef (cleanup s) = None" "localStreamRef (cleanup s) = None"
  "peerConnectionRef (cleanup s) = None" "audioElementRef (cleanup s) = None"
  by (simp_all add: cleanup_def Let_def split: option.splits)

lemma cleanup_trace: "trace (cleanup s) = trace s @ releases s"
  by (simp add: cleanup_def Let_def releases_def split: option.splits)

lemma cleanup_channels:
  "channels (cleanup s) =
     (case dataChannelRef s of
        Some d \<Rightarrow> if channelLive s d then (channels s)[d := RsClosing] else channels s
      | None \<Rightarrow> channels s)"
  by (simp add: cleanup_def Let_def split: option.splits)

lemma cleanup_streams:
  "streams (cleanup s) =
     (case localStreamRef s of
        Some m \<Rightarrow> if m < length (streams s)
                  then (streams s)[m := map (\<lambda>live. False) (streams s ! m)] else streams s
      | None \<Rightarrow> streams s)"
  by (simp add: cleanup_def Let_def split: option.splits)

lemma cleanup_peers:
  "peers (cleanup s) =
     (case peerConnectionRef s of
        Some p \<Rightarrow> if p < length (peers s) then (peers s)[p := (False, snd (peers s ! p))] else peers s
      | None \<Rightarrow> peers s)"
  by (simp add: cleanup_def Let_def split: option.splits)

lemma cleanup_audios:
  "audios (cleanup s) =
     (case audioElementRef s of
        Some a \<Rightarrow> if a < length (audios s) then (audios s)[a := False] else audios s
      | None \<Rightarrow> audios s)"
  by (simp add: cleanup_def Let_def split: option.splits)

lemma channelLive_cleanup:
  "channelLive (cleanup s) d \<longleftrightarrow> channelLive s d \<and> dataChannelRef s \<noteq> Some d"
  by (auto simp add: channelLive_def cleanup_channels nth_list_update split: option.splits if_splits)

lemma streamLive_cleanup:
  "streamLive (cleanup s) m \<longleftrightarrow> streamLive s m \<and> localStreamRef s \<noteq> Some m"
  by (auto simp add: streamLive_def cleanup_streams nth_list_update split: option.splits if_splits)

lemma peerOpen_cleanup:
  "peerOpen (cleanup s) p \<longleftrightarrow> peerOpen s p \<and> peerConnectionRef s \<noteq> Some p"
  by (auto simp add: peerOpen_def cleanup_peers nth_list_update split: option.splits if_splits)

lemma sinkAttached_cleanup:
  "sinkAttached (cleanup s) a \<longleftrightarrow> sinkAttached s a \<and> audioElementRef s \<noteq> Some a"
  by (auto simp add: sinkAttached_def cleanup_audios nth_list_update split: option.splits if_splits)





lemma connectCatch_alt: "connectCatch thrown s = cleanup (beforeCleanup thrown s)"
  by (simp add: connectCatch_def beforeCleanup_def)

lemma beforeCleanup_fields [simp]:
  "status (beforeCleanup thrown s) = Disconnected"
  "error (beforeCleanup thrown s) = Some (errorMessage thrown)"
  "channels (beforeCleanup thrown s) = channels s" "streams (beforeCleanup thrown s) = streams s"
  "peers (beforeCleanup thrown s) = peers s" "audios (beforeCleanup thrown s) = audios s"
  "dataChannelRef (beforeCleanup thrown s) = dataChannelRef s"
  "localStreamRef (beforeCleanup thrown s) = localStreamRef s"
  "peerConnectionRef (beforeCleanup thrown s) = peerConnectionRef s"
  "audioElementRef (beforeCleanup thrown s) = audioElementRef s"
  "trace (beforeCleanup thrown s) = trace s @
     [Console ErrorLevel ''Connection error:'', SetError (Some (errorMessage thrown)),
      OnError (errorMessage thrown), SetStatus Disconnected]"
  by (simp_all add: beforeCleanup_def setStatus_def setError_def emit_def)

lemma releases_cong:
  "streams t = streams s \<Longrightarrow> dataChannelRef t = dataChannelRef s \<Longrightarrow>
   localStreamRef t = localStreamRef s \<Longrightarrow> peerConnectionRef t = peerConnectionRef s \<Longrightarrow>
   audioElementRef t = audioElementRef s \<Longrightarrow> releases t = releases s"
  by (simp add: releases_def split: option.splits)

lemma connectCatch_facts:
  "status (connectCatch thrown s) = Disconnected"
  "error (connectCatch thrown s) = Some (errorMessage thrown)"
  "dataChannelRef (connectCatch thrown s) = None" "localStreamRef (connectCatch thrown s) = None"
  "peerConnectionRef (connectCatch thrown s) = None" "audioElementRef (connectCatch thrown s) = None"
  "trace (connectCatch thrown s) = trace s @
     [Console ErrorLevel ''Connection error:'', SetError (Some (errorMessage thrown)),
      OnError (errorMessage thrown), SetStatus Disconnected] @ releases s"
  by (simp_all add: connectCatch_alt cleanup_trace releases_cong [of "beforeCleanup thrown s" s])

subsection \<open>Failure of a connect call\<close>




lemma timersArmed_append [simp]: "timersArmed (xs @ ys) = timersArmed xs @ timersArmed ys"
  by (induction xs rule: timersArmed.induct) simp_all

lemma timersArmed_TrackStop [simp]: "timersArmed (map (TrackStop m) xs) = []"
  by (induction xs) simp_all

lemma timersArmed_releases [simp]: "timersArmed (releases s) = []"
  by (simp add: releases_def split: option.splits)

lemma timersArmed_connectCatch [simp]:
  "timersArmed (trace (connectCatch thrown s)) = timersArmed (trace s)"
  by (simp add: connectCatch_facts)










subsection \<open>Calls that overlap a negotiation\<close>

text \<open>
  What holds of the two guards: \<^verbatim>\<open>connect\<close> called from a render whose state is not
  disconnected only logs a warning, and leaves the state and the suspended negotiation as
  they are, while two calls from one render that saw disconnected both start a negotiation;
  \<^verbatim>\<open>startAudition\<close> called from a render whose state is not disconnected releases
  what the refs hold at the call, and nothing else, before the new negotiation starts.
\<close>

lemma connect_ignored_while_busy:
  assumes "rendered \<noteq> Disconnected"
  shows "connectFrom rendered instructions voice s =
           emit (Console WarnLevel ''Already connected or connecting'') s"
    and "status (connectFrom rendered instructions voice s) = status s"
    and "pending (connectFrom rendered instructions voice s) = pending s"
    and "sends (trace (connectFrom rendered instructions voice s)) = sends (trace s)"
  using assms by (simp_all add: connectFrom_def emit_def)

lemma connect_twice_from_one_render:
  "pending (connectFrom Disconnected instructions voice
      (connectFrom Disconnected instructions voice s)) =
     pending s @ [AwaitTokenFetch, AwaitTokenFetch]"
  by (simp add: connectFrom_def Let_def setStatus_def setError_def emit_def)

lemma startAudition_releases_held:
  assumes "status s \<noteq> Disconnected"
  shows "status (startAudition b persona s) = Connecting"
    and "activePersona (startAudition b persona s) = Some persona"
    and "channelLive (startAudition b persona s) d = (channelLive s d \<and> dataChannelRef s \<noteq> Some d)"
    and "streamLive (startAudition b persona s) m = (streamLive s m \<and> localStreamRef s \<noteq> Some m)"
    and "peerOpen (startAudition b persona s) p = (peerOpen s p \<and> peerConnectionRef s \<noteq> Some p)"
    and "sinkAttached (startAudition b persona s) x = (sinkAttached s x \<and> audioElementRef s \<noteq> Some x)"
proof -
  let ?s' = "startAudition b persona s"
  have stores: "channels ?s' = channels (cleanup s)" "streams ?s' = streams (cleanup s)"
    "peers ?s' = peers (cleanup s)" "audios ?s' = audios (cleanup s)"
    using assms(1)
    by (simp_all add: startAudition_def Let_def setStatus_def setError_def setActivePersona_def emit_def)
  show "status ?s' = Connecting" "activePersona ?s' = Some persona"
    by (simp_all add: startAudition_def Let_def setStatus_def setError_def setActivePersona_def emit_def)
  show "channelLive ?s' d = (channelLive s d \<and> dataChannelRef s \<noteq> Some d)"
    using channelLive_cleanup [of s d] by (simp add: channelLive_def stores)
  show "streamLive ?s' m = (streamLive s m \<and> localStreamRef s \<noteq> Some m)"
    using streamLive_cleanup [of s m] by (simp add: streamLive_def stores)
  show "peerOpen ?s' p = (peerOpen s p \<and> peerConnectionRef s \<noteq> Some p)"
    using peerOpen_cleanup [of s p] by (simp add: peerOpen_def stores)
  show "sinkAttached ?s' x = (sinkAttached s x \<and> audioElementRef s \<noteq> Some x)"
    using sinkAttached_cleanup [of s x] by (simp add: sinkAttached_def stores)
qed

lemma race_eq:
  "run race initial =
     \<lparr>status = Connected, isAgentSpeaking = False, error = None,
      peerConnectionRef = Some 0, dataChannelRef = Some 0,
      localStreamRef = Some 0, audioElementRef = Some 0, channels = [RsOpen],
      peers = [(True, 0)], streams = [[True]], audios = [False], pending = [],
      trace =
        [SetStatus Connecting, SetError None, TokenRequest ''hello'' Shimmer,
         SetStatus Disconnected, SetError None, SdpRequest, SetTimeout 10000,
         ClearTimeout, Console LogLevel ''WebRTC connection established'',
         Console LogLevel ''Data channel opened'', SetStatus Connected],
      navigationCallbacksRef = None\<rparr>"
  by (simp add: race_def run_defs disconnect_def cleanup_def setIsAgentSpeaking_def)

text \<open>
  C6, at its failing input. \<^verbatim>\<open>disconnect\<close> does not cancel a suspended \<^verbatim>\<open>connect\<close>: the state is
  written connecting, disconnected, connected, so that connected is entered from
  disconnected, with the data channel open and the microphone track live.
\<close>

theorem disconnect_during_negotiation:
  "statusWrites (trace (run race initial)) = [Connecting, Disconnected, Connected]
   \<and> status (run race initial) = Connected
   \<and> openChannels (run race initial) = [0]
   \<and> liveTracks (run race initial) = 1"
  by (simp add: race_eq openChannels_def liveTracks_def)

lemma auditionRun_append: "auditionRun b (xs @ ys) s = auditionRun b ys (auditionRun b xs s)"
  by (induction xs arbitrary: s) simp_all

lemma overlap_eq:
  "auditionRun plainAudition overlap auditionInitial =
     \<lparr>status = Connected, isAgentSpeaking = False, error = None,
      peerConnectionRef = Some 1, dataChannelRef = Some 1,
      localStreamRef = Some 1, audioElementRef = Some 1,
      channels = [RsOpen, RsOpen], peers = [(True, 0), (True, 1)],
      streams = [[True], [True]], audios = [False, False], pending = [],
      trace =
        [SetStatus Connecting, SetError None,
         TokenRequest ''Introduce yourself.'' Sage, SetStatus Connecting,
         SetError None, TokenRequest ''Introduce yourself.'' Verse,
         SdpRequest, SdpRequest, SetTimeout 10000, SetTimeout 10000,
         ClearTimeout,
         Console LogLevel ''Audition connection established for'',
         ClearTimeout,
         Console LogLevel ''Audition connection established for'',
         Console LogLevel ''Audition data channel opened'',
         SetStatus Connected,
         Console LogLevel ''Audition data channel opened'',
         SetStatus Connected, Send 0 ResponseCreate, Send 1 ResponseCreate],
      activePersona = Some Coach, timers = []\<rparr>"
  by (simp add: overlap_def auditionInitial_def plainAudition_def startAudition_def Let_def
      cleanup_def setStatus_def setError_def setActivePersona_def emit_def auditionResumeAt_def
      resumeAudition_def createPeerConnection_def storeStream_def peerOpen_def
      createDataChannel_def CONNECT_TIMEOUT_MS_def auditionOnOpen_def auditionOnTimer_def
      readyState_def)

text \<open>
  C9, at its failing input. The \<^verbatim>\<open>cleanup\<close> of the second \<^verbatim>\<open>startAudition\<close> finds no ref set,
  both negotiations complete, and two peer connections, two channels and two capture tracks
  are live; \<^verbatim>\<open>endAudition\<close> then releases only the second of each.
\<close>

theorem overlapping_auditions:
  "activePersona (auditionRun plainAudition overlap auditionInitial) = Some Coach
   \<and> openPeers (auditionRun plainAudition overlap auditionInitial) = [0, 1]
   \<and> openChannels (auditionRun plainAudition overlap auditionInitial) = [0, 1]
   \<and> liveTracks (auditionRun plainAudition overlap auditionInitial) = 2
   \<and> status (auditionRun plainAudition (overlap @ [CallEndAudition]) auditionInitial) = Disconnected
   \<and> openPeers (auditionRun plainAudition (overlap @ [CallEndAudition]) auditionInitial) = [0]
   \<and> openChannels (auditionRun plainAudition (overlap @ [CallEndAudition]) auditionInitial) = [0]
   \<and> liveTracks (auditionRun plainAudition (overlap @ [CallEndAudition]) auditionInitial) = 1"
  by (simp add: auditionRun_append overlap_eq openPeers_def openChannels_def liveTracks_def
      endAudition_def cleanup_def Let_def closeDataChannel_def stopTracks_def
      closePeerConnection_def detachSink_def setStatus_def setError_def setActivePersona_def
      setIsAgentSpeaking_def emit_def)

subsection \<open>The greeting\<close>

lemma userTexts_append [simp]: "userTexts (xs @ ys) = userTexts xs @ userTexts ys"
  by (simp add: userTexts_def)

lemma userTexts_Nil0 [simp]: "userTexts [] = []"
  by (simp add: userTexts_def)

lemma userTexts_Cons [simp]:
  "userTexts (e # es) = (case e of Send d ev \<Rightarrow> textOf ev | _ \<Rightarrow> []) @ userTexts es"
  by (cases e) (simp_all add: userTexts_def)

lemma userTexts_TrackStop [simp]: "userTexts (map (TrackStop m) xs) = []"
  by (induction xs) (simp_all add: userTexts_def)

lemma userTexts_emit:
  "userTexts (trace (emit e s)) = userTexts (trace s) @ userTexts [e]"
  by simp

lemma userTexts_sendEvent:
  "textOf ev = [] \<Longrightarrow> userTexts (trace (sendEvent ev s)) = userTexts (trace s)"
  by (simp add: sendEvent_def split: option.splits)

lemma userTexts_setStatus [simp]: "userTexts (trace (setStatus st s)) = userTexts (trace s)"
  by (simp add: setStatus_def)

lemma userTexts_setError [simp]: "userTexts (trace (setError e s)) = userTexts (trace s)"
  by (simp add: setError_def)

lemma userTexts_setIsAgentSpeaking [simp]:
  "userTexts (trace (setIsAgentSpeaking b s)) = userTexts (trace s)"
  by (simp add: setIsAgentSpeaking_def)

lemma userTexts_cleanup [simp]: "userTexts (trace (cleanup s)) = userTexts (trace s)"
  by (simp add: cleanup_def Let_def closeDataChannel_def stopTracks_def closePeerConnection_def
      detachSink_def emit_def split: option.splits)

lemma userTexts_connectCatch [simp]: "userTexts (trace (connectCatch thrown s)) = userTexts (trace s)"
  by (simp add: connectCatch_def)

lemma userTexts_resume [simp]: "userTexts (trace (snd (resume st a s))) = userTexts (trace s)"
  by (cases st; cases a)
     (simp_all add: resume_def Let_def createPeerConnection_def storeStream_def createDataChannel_def
       )

lemma userTexts_resumeAt [simp]: "userTexts (trace (resumeAt k a s)) = userTexts (trace s)"
proof (cases "k < length (pending s)")
  case True
  obtain n s1 where r: "resume (pending s ! k) a s = (n, s1)" by force
  have "userTexts (trace s1) = userTexts (trace s)"
    using userTexts_resume [of "pending s ! k" a s] by (simp add: r)
  then show ?thesis using True by (simp add: resumeAt_def r split: option.splits)
next
  case False
  then show ?thesis by (simp add: resumeAt_def)
qed

lemma userTexts_invoke [simp]:
  "userTexts (trace (stateOf (invoke callbacks c s))) = userTexts (trace s)"
  by (simp add: invoke_def stateOf_def)

lemma userTexts_handleFunctionCall [simp]:
  "userTexts (trace (stateOf (handleFunctionCall name callId args s))) = userTexts (trace s)"
  by (simp add: handleFunctionCall_def Let_def userTexts_sendEvent invoke_def stateOf_def
      split: option.splits)

lemma userTexts_forEachOutputItem [simp]:
  "userTexts (trace (stateOf (forEachOutputItem items s))) = userTexts (trace s)"
proof (induction items arbitrary: s)
  case Nil
  then show ?case by (simp add: stateOf_def)
next
  case (Cons item rest)
  show ?case
  proof (cases item)
    case (FunctionCallItem name callId args)
    show ?thesis
    proof (cases "handleFunctionCall name callId args s")
      case (Returned s1)
      with userTexts_handleFunctionCall [of name callId args s]
      have "userTexts (trace s1) = userTexts (trace s)" by (simp add: stateOf_def)
      then show ?thesis by (simp add: FunctionCallItem Returned Cons.IH)
    next
      case (Thrown s1)
      with userTexts_handleFunctionCall [of name callId args s]
      have "userTexts (trace s1) = userTexts (trace s)" by (simp add: stateOf_def)
      then show ?thesis by (simp add: FunctionCallItem Thrown stateOf_def)
    qed
  next
    case MessageItem
    then show ?thesis by (simp add: Cons.IH)
  qed
qed

lemma userTexts_handleServerEvent [simp]:
  "userTexts (trace (stateOf (handleServerEvent ev s))) = userTexts (trace s)"
  by (cases ev) (simp_all add: handleServerEvent_def stateOf_def [of "Returned x" for x])

lemma userTexts_onMessage [simp]: "userTexts (trace (onMessage d m s)) = userTexts (trace s)"
proof (cases m)
  case None
  then show ?thesis by (simp add: onMessage_def)
next
  case (Some ev)
  show ?thesis
    using userTexts_handleServerEvent [of ev s]
    by (cases "handleServerEvent ev s") (simp_all add: onMessage_def Some stateOf_def)
qed


lemma userTexts_sendHint [simp]: "userTexts (trace (sendHint message s)) = userTexts (trace s)"
  by (simp add: sendHint_def userTexts_sendEvent isHintText_def)

lemma userTexts_updateInstructions [simp]:
  "userTexts (trace (updateInstructions i s)) = userTexts (trace s)"
  by (simp add: updateInstructions_def userTexts_sendEvent)










lemma status_sendEvent [simp]: "status (sendEvent ev s) = status s"
  by (simp add: sendEvent_def split: option.splits)

lemma status_handleFunctionCall [simp]:
  "status (stateOf (handleFunctionCall name callId args s)) = status s"
  by (simp add: handleFunctionCall_def Let_def invoke_def stateOf_def split: option.splits)

lemma status_forEachOutputItem [simp]:
  "status (stateOf (forEachOutputItem items s)) = status s"
proof (induction items arbitrary: s)
  case Nil
  then show ?case by (simp add: stateOf_def)
next
  case (Cons item rest)
  show ?case
  proof (cases item)
    case (FunctionCallItem name callId args)
    show ?thesis
    proof (cases "handleFunctionCall name callId args s")
      case (Returned s1)
      with status_handleFunctionCall [of name callId args s]
      have "status s1 = status s" by (simp add: stateOf_def)
      then show ?thesis by (simp add: FunctionCallItem Returned Cons.IH)
    next
      case (Thrown s1)
      with status_handleFunctionCall [of name callId args s]
      have "status s1 = status s" by (simp add: stateOf_def)
      then show ?thesis by (simp add: FunctionCallItem Thrown stateOf_def)
    qed
  next
    case MessageItem
    then show ?thesis by (simp add: Cons.IH)
  qed
qed

lemma status_handleServerEvent [simp]:
  "status (stateOf (handleServerEvent ev s)) = status s"
  by (cases ev)
     (simp_all add: handleServerEvent_def stateOf_def [of "Returned x" for x]
        setIsAgentSpeaking_def setError_def)

lemma status_onMessage [simp]: "status (onMessage d m s) = status s"
proof (cases m)
  case None
  then show ?thesis by (simp add: onMessage_def)
next
  case (Some ev)
  show ?thesis
    using status_handleServerEvent [of ev s]
    by (cases "handleServerEvent ev s") (simp_all add: onMessage_def Some stateOf_def)
qed





lemma status_greetingEffect [simp]: "status (conn (greetingEffect c)) = status (conn c)"
  by (simp add: greetingEffect_def Let_def sendTextMessage_def split: option.splits)













end
